theory Spec2Isabelle
  imports Complex_Main
begin

section \<open>Python values shared by the modules\<close>

text \<open>
  An exception object is its class name and the text \<open>str(e)\<close> gives. Every handler of
  the repository is \<open>except Exception\<close>, so a value of this type stands for an instance
  of a subclass of \<open>Exception\<close>; the system-exiting classes (\<open>KeyboardInterrupt\<close>,
  \<open>SystemExit\<close>, task cancellation) are not faults of a task and are not modelled.
  A computation that may raise returns \<open>py_exc + 'a\<close>, with \<open>Inl\<close> for the exception.
  Clock readings are real numbers. The delay of the retrying invoker is computed as
  Python computes it, with the conversion of an \<open>int\<close> to a \<open>float\<close> and the rounding of
  the float sum written out.
\<close>

datatype py_exc = PyExc (exc_class: string) (exc_str: string)

section \<open>Python's float arithmetic on integers\<close>

text \<open>
  A Python \<open>float\<close> is an IEEE 754 double: 53 significant bits, round to nearest, ties
  to even. \<open>bitlen n\<close> is the number of bits of \<open>n\<close>; \<open>to_double n\<close> is the value of the
  double nearest to the natural number \<open>n\<close>: \<open>n\<close> itself up to 53 bits, and otherwise \<open>n\<close>
  with the bits below the leading 53 rounded away. \<open>round_int\<close> is the same for an
  integer with its sign. Converting an \<open>int\<close> to a \<open>float\<close> raises \<open>OverflowError\<close> when the
  rounded value does not fit (\<open>2 ^ 1024\<close> or more in magnitude).

  \<open>random.random()\<close> returns \<open>k / 2 ^ 53\<close> for an integer \<open>0 \<le> k < 2 ^ 53\<close>. The double
  \<open>a + k / 2 ^ 53\<close>, for a double \<open>a\<close> of integer value, is the exact sum
  \<open>(a * 2 ^ 53 + k) / 2 ^ 53\<close> rounded to 53 significant bits: \<open>float_add a k\<close>.
\<close>

fun bitlen :: "nat \<Rightarrow> nat" where
  "bitlen n = (if n = 0 then 0 else Suc (bitlen (n div 2)))"

definition round_half_even :: "nat \<Rightarrow> nat \<Rightarrow> nat" where
  \<comment> \<open>\<open>n / 2 ^ s\<close> rounded to the nearest integer, a tie to the even one\<close>
  "round_half_even n s =
     (let q = n div 2 ^ s; r = n mod 2 ^ s; half = 2 ^ (s - 1)
      in if r < half \<or> (r = half \<and> even q) then q else q + 1)"

definition to_double :: "nat \<Rightarrow> nat" where
  "to_double n = (let s = bitlen n - 53 in round_half_even n s * 2 ^ s)"

definition round_int :: "int \<Rightarrow> int" where
  "round_int n = sgn n * int (to_double (nat \<bar>n\<bar>))"

definition float_overflow :: "int \<Rightarrow> bool" where
  "float_overflow n \<longleftrightarrow> 2 ^ 1024 \<le> \<bar>round_int n\<bar>"

definition int_to_float :: "int \<Rightarrow> py_exc + int" where
  "int_to_float n =
     (if float_overflow n then Inl (PyExc ''OverflowError'' ''int too large to convert to float'')
      else Inr (round_int n))"

definition float_add :: "int \<Rightarrow> nat \<Rightarrow> real" where
  "float_add a k = real_of_int (round_int (a * 2 ^ 53 + int k)) / 2 ^ 53"

section \<open>adk_helper.py: the retrying invoker\<close>

text \<open>
  \<^verbatim>\<open>
  async def safe_call_adk(agent, prompt, context=None, retries=5, base_delay=5):
      for attempt in range(retries):
          result = await agent.call_adk(prompt, context)
          if result is not None:
              return result
          delay = base_delay * (2 ** attempt) + random.random()
          print(f"ADK call failed, retrying in {delay:.1f}s...")
          await asyncio.sleep(delay)
      print("ADK call failed after retries.")
      return None
  \<close>
  The operation \<open>agent.call_adk(prompt, context)\<close> talks to an external service: its
  \<open>n\<close>-th invocation (counted from 0) yields \<open>operation n\<close>, an exception, \<open>None\<close> or a
  string. \<open>random.random()\<close> is the stream \<open>rnd\<close> of the integers \<open>k\<close> it is made from, read
  at the number of values drawn so far. \<open>base_delay\<close> is an \<open>int\<close>, as its default and as in
  every call of the repository (no caller passes it): the product \<open>base_delay * 2 ** attempt\<close>
  is an exact \<open>int\<close>, and adding the float converts it. The state records what the
  function does besides returning: the invocations made, the delays handed to
  \<open>asyncio.sleep\<close> and the lines printed.
\<close>

datatype log_line = Retrying real | Exhausted

record retry_state =
  calls :: nat
  slept :: "real list"
  printed :: "log_line list"

definition retry_init :: retry_state where
  "retry_init = \<lparr>calls = 0, slept = [], printed = []\<rparr>"

definition py_range :: "int \<Rightarrow> nat list" where
  \<comment> \<open>\<open>range(n)\<close>: empty when \<open>n \<le> 0\<close>\<close>
  "py_range n = [0..<nat n]"

fun safe_call_loop ::
  "(nat \<Rightarrow> py_exc + string option) \<Rightarrow> (nat \<Rightarrow> nat) \<Rightarrow> int \<Rightarrow> nat list \<Rightarrow> retry_state
    \<Rightarrow> (py_exc + string option) \<times> retry_state" where
  "safe_call_loop operation rnd base_delay [] s =
     (Inr None, s\<lparr>printed := printed s @ [Exhausted]\<rparr>)"
| "safe_call_loop operation rnd base_delay (attempt # rest) s =
     (let s1 = s\<lparr>calls := Suc (calls s)\<rparr> in
      case operation (calls s) of
        Inl e \<Rightarrow> (Inl e, s1)
      | Inr (Some result) \<Rightarrow> (Inr (Some result), s1)
      | Inr None \<Rightarrow>
          (case int_to_float (base_delay * 2 ^ attempt) of
             Inl e \<Rightarrow> (Inl e, s1)
           | Inr product \<Rightarrow>
               (let delay = float_add product (rnd (length (slept s1)) mod 2 ^ 53)
                in safe_call_loop operation rnd base_delay rest
                     (s1\<lparr>slept := slept s1 @ [delay],
                         printed := printed s1 @ [Retrying delay]\<rparr>))))"

definition safe_call_adk ::
  "(nat \<Rightarrow> py_exc + string option) \<Rightarrow> (nat \<Rightarrow> nat) \<Rightarrow> int \<Rightarrow> int
    \<Rightarrow> (py_exc + string option) \<times> retry_state" where
  "safe_call_adk operation rnd retries base_delay =
     safe_call_loop operation rnd base_delay (py_range retries) retry_init"

text \<open>Operations and jitter streams used at concrete inputs; \<open>half_jitter\<close> is the jitter
  \<open>0.5\<close>.\<close>

definition always_none :: "nat \<Rightarrow> py_exc + string option" where
  "always_none n = Inr None"

definition always_empty_string :: "nat \<Rightarrow> py_exc + string option" where
  "always_empty_string n = Inr (Some [])"

definition third_time_lucky :: "nat \<Rightarrow> py_exc + string option" where
  "third_time_lucky n = (if n < 2 then Inr None else Inr (Some ''ok''))"

definition half_jitter :: "nat \<Rightarrow> nat" where
  "half_jitter n = 2 ^ 52"

section \<open>Values, dataframes and the result envelope\<close>

text \<open>
  A pandas \<open>DataFrame\<close> is a list of named columns; a column has a dtype and cells, a
  missing cell (\<open>NaN\<close>, \<open>None\<close>) is \<open>None\<close>. Dataframes are objects: the heap is the list
  of the dataframes allocated so far and an address is a position in it. A dataframe
  that the code binds to a name and then assigns to or returns (\<open>df.copy()\<close>,
  \<open>df.drop(...)\<close>, \<open>drop_duplicates()\<close>) is allocated; a column assignment
  \<open>frame[col] = ...\<close> overwrites the object at its address. A dataframe or series that is
  only read (\<open>select_dtypes(...).columns\<close>, \<open>df[col]\<close>) is a value.
\<close>

datatype cell = Num real | Str string

datatype dtype = Int64 | Float64 | Object | Category | Bool | Datetime

definition dtype_str :: "dtype \<Rightarrow> string" where
  "dtype_str dt =
     (case dt of Int64 \<Rightarrow> ''int64'' | Float64 \<Rightarrow> ''float64'' | Object \<Rightarrow> ''object''
      | Category \<Rightarrow> ''category'' | Bool \<Rightarrow> ''bool'' | Datetime \<Rightarrow> ''datetime64[ns]'')"

definition np_number :: "dtype list" where
  \<comment> \<open>the dtypes \<open>select_dtypes(include=[np.number])\<close> keeps\<close>
  "np_number = [Int64, Float64]"

type_synonym column = "dtype \<times> cell option list"

type_synonym frame = "(string \<times> column) list"

type_synonym heap = "frame list"

definition alloc :: "heap \<Rightarrow> frame \<Rightarrow> nat \<times> heap" where
  "alloc h f = (length h, h @ [f])"

definition shape :: "frame \<Rightarrow> nat \<times> nat" where
  "shape f = ((case f of [] \<Rightarrow> 0 | (name, (dt, cells)) # rest \<Rightarrow> length cells), length f)"

definition null_count :: "column \<Rightarrow> nat" where
  \<comment> \<open>\<open>series.isnull().sum()\<close>\<close>
  "null_count c = length (filter (\<lambda>x. x = None) (snd c))"

definition fillna :: "column \<Rightarrow> cell option \<Rightarrow> column" where
  \<comment> \<open>\<open>series.fillna(v)\<close>: a new series; filling with \<open>NaN\<close> changes nothing\<close>
  "fillna c v = (fst c, map (\<lambda>x. case x of None \<Rightarrow> v | Some y \<Rightarrow> Some y) (snd c))"

definition select_dtypes :: "dtype list \<Rightarrow> frame \<Rightarrow> frame" where
  "select_dtypes include f = filter (\<lambda>(name, (dt, cells)). dt \<in> set include) f"

definition columns :: "frame \<Rightarrow> string list" where
  "columns f = map fst f"

definition drop_column :: "frame \<Rightarrow> string \<Rightarrow> frame" where
  \<comment> \<open>\<open>df.drop(columns=[target])\<close>, for a \<open>target\<close> among the columns\<close>
  "drop_column f target = filter (\<lambda>(name, c). name \<noteq> target) f"

fun set_column :: "frame \<Rightarrow> string \<Rightarrow> column \<Rightarrow> frame" where
  \<comment> \<open>\<open>frame[col] = c\<close>: in place for a column that exists, appended otherwise\<close>
  "set_column [] col c = [(col, c)]"
| "set_column ((name, d) # rest) col c =
     (if name = col then (name, c) # rest else (name, d) # set_column rest col c)"

text \<open>
  Python values that travel in payloads. A payload is a \<open>dict\<close>: an association list in
  insertion order. A dataframe held by a payload is recorded by its value when the
  payload is built.
\<close>

datatype pyval =
    PNone
  | PBool bool
  | PInt int
  | PFloat real
  | PStr string
  | PList "pyval list"
  | PDict "(string \<times> pyval) list"
  | PFrame frame

fun dict_set :: "(string \<times> 'v) list \<Rightarrow> string \<Rightarrow> 'v \<Rightarrow> (string \<times> 'v) list" where
  \<comment> \<open>\<open>d[k] = v\<close>: a key keeps the position of its first insertion\<close>
  "dict_set [] k v = [(k, v)]"
| "dict_set ((k', v') # rest) k v =
     (if k' = k then (k', v) # rest else (k', v') # dict_set rest k v)"

definition keys :: "(string \<times> 'v) list \<Rightarrow> string list" where
  "keys d = map fst d"

definition attribute_error :: "string \<Rightarrow> string \<Rightarrow> py_exc" where
  "attribute_error ty attr =
     PyExc ''AttributeError'' ([CHR 0x27] @ ty @ [CHR 0x27] @ '' object has no attribute '' @ [CHR 0x27] @ attr @ [CHR 0x27])"

definition py_get :: "pyval \<Rightarrow> string \<Rightarrow> py_exc + pyval" where
  \<comment> \<open>\<open>x.get(key)\<close>: a method of dicts only; a missing key gives \<open>None\<close>\<close>
  "py_get x key =
     (case x of
        PDict d \<Rightarrow> Inr (case map_of d key of None \<Rightarrow> PNone | Some v \<Rightarrow> v)
      | PNone \<Rightarrow> Inl (attribute_error ''NoneType'' ''get'')
      | PBool b \<Rightarrow> Inl (attribute_error ''bool'' ''get'')
      | PInt i \<Rightarrow> Inl (attribute_error ''int'' ''get'')
      | PFloat r \<Rightarrow> Inl (attribute_error ''float'' ''get'')
      | PStr s \<Rightarrow> Inl (attribute_error ''str'' ''get'')
      | PList l \<Rightarrow> Inl (attribute_error ''list'' ''get'')
      | PFrame f \<Rightarrow> Inr (case map_of f key of None \<Rightarrow> PNone | Some c \<Rightarrow> PList (map (\<lambda>x. case x of None \<Rightarrow> PNone | Some (Num r) \<Rightarrow> PFloat r | Some (Str s) \<Rightarrow> PStr s) (snd c))))"

text \<open>
  \<^verbatim>\<open>
  @dataclass
  class AgentResult:
      agent_name: str
      status: str
      data: any
      execution_time: float
      error: str = None
  \<close>
  The six agent modules declare the same class.
\<close>

record AgentResult =
  agent_name :: string
  status :: string
  data :: pyval
  execution_time :: real
  error :: "string option"

definition truthy :: "pyval \<Rightarrow> bool" where
  \<comment> \<open>Python's truth value: \<open>None\<close>, \<open>False\<close>, zero and the empty containers are false\<close>
  "truthy x =
     (case x of
        PNone \<Rightarrow> False | PBool b \<Rightarrow> b | PInt i \<Rightarrow> i \<noteq> 0 | PFloat r \<Rightarrow> r \<noteq> 0
      | PStr s \<Rightarrow> s \<noteq> [] | PList l \<Rightarrow> l \<noteq> [] | PDict d \<Rightarrow> d \<noteq> [] | PFrame f \<Rightarrow> True)"

definition cell_val :: "cell option \<Rightarrow> pyval" where
  "cell_val x = (case x of None \<Rightarrow> PNone | Some (Num r) \<Rightarrow> PFloat r | Some (Str s) \<Rightarrow> PStr s)"

section \<open>What the agents take from outside the repository\<close>

text \<open>
  The agents call the Gemini service, \<open>random\<close>, \<open>json\<close>, pandas, scikit-learn, matplotlib
  and reportlab. None of these is source of the repository: each call is a field of
  \<open>extern\<close>, a function from the values the call reads to the value it returns or the
  exception it raises. \<open>generate_content n\<close> is the outcome of the \<open>n\<close>-th request made by
  one \<open>execute\<close>: the \<open>text\<close> the code reads off the response (\<open>None\<close> when it has none).
  \<open>random n\<close> is the integer \<open>k\<close> of the \<open>n\<close>-th \<open>random.random()\<close>, which returns
  \<open>k / 2 ^ 53\<close>.
  \<open>format spec v\<close> is the text of \<open>v\<close> in an f-string, with the format specification
  \<open>spec\<close> (empty for \<open>str\<close>).
\<close>

datatype adk_client = Client string

record extern =
  ADK_AVAILABLE :: bool
  generate_content :: "nat \<Rightarrow> py_exc + string option"
  random :: "nat \<Rightarrow> nat"
  format :: "string \<Rightarrow> pyval \<Rightarrow> string"
  json_loads :: "string \<Rightarrow> py_exc + pyval"
  nonempty_lines :: "string \<Rightarrow> string list"
  duplicated_sum :: "frame \<Rightarrow> py_exc + nat"
  drop_duplicates :: "frame \<Rightarrow> py_exc + frame"
  median :: "column \<Rightarrow> py_exc + cell option"
  mode :: "column \<Rightarrow> py_exc + cell list"
  quantile :: "column \<Rightarrow> real \<Rightarrow> py_exc + real option"
  describe :: "bool \<Rightarrow> frame \<Rightarrow> py_exc + pyval"
  corr :: "frame \<Rightarrow> py_exc + pyval"
  plot_png :: "string \<Rightarrow> pyval \<Rightarrow> py_exc + string"
  label_encode :: "column \<Rightarrow> py_exc + column"
  fit_importances :: "bool \<Rightarrow> frame \<Rightarrow> column \<Rightarrow> py_exc + real list"
  render_pdf :: "(string \<times> AgentResult) list \<Rightarrow> AgentResult \<Rightarrow> py_exc + string"

text \<open>
  \<^verbatim>\<open>
  async def call_adk(self, prompt, context=None):
      if not ADK_AVAILABLE or not self.adk_client:
          return None
      try:
          ...
          return await loop.run_in_executor(None, blocking_call)
      except Exception:
          return None
  \<close>
  The same method in every agent class, up to the request's parameters.
\<close>

definition call_adk :: "extern \<Rightarrow> adk_client option \<Rightarrow> nat \<Rightarrow> string option" where
  "call_adk ext client n =
     (if \<not> ADK_AVAILABLE ext \<or> client = None then None
      else (case generate_content ext n of Inl e \<Rightarrow> None | Inr text \<Rightarrow> text))"

definition key_error :: "string \<Rightarrow> py_exc" where
  "key_error k = PyExc ''KeyError'' ([CHR 0x27] @ k @ [CHR 0x27])"

section \<open>agents/data_cleaning.py\<close>

text \<open>
  \<open>execute\<close> takes the heap and the address of the shared dataframe \<open>df\<close> and returns the
  envelope with the heap it leaves. \<open>start\<close> and \<open>now\<close> are the two readings of
  \<open>time.time()\<close> a run of \<open>execute\<close> makes: on entry and where it builds its envelope.

  The two fill loops of the source, over the numeric and over the object or category
  columns of the private copy \<open>cleaned_df\<close>:
  \<^verbatim>\<open>
  for col in numeric_cols:
      if cleaned_df[col].isnull().sum() > 0:
          median_val = cleaned_df[col].median()
          cleaned_df[col] = cleaned_df[col].fillna(median_val)
          cleaning_report["operations"].append(f"Filled {col} nulls with median: {median_val}")
  \<close>
  An exception leaves the heap as the loop had made it.
\<close>

fun fill_numeric ::
  "extern \<Rightarrow> nat \<Rightarrow> string list \<Rightarrow> heap \<Rightarrow> pyval list \<Rightarrow> (py_exc + pyval list) \<times> heap" where
  "fill_numeric ext cleaned_df [] h operations = (Inr operations, h)"
| "fill_numeric ext cleaned_df (col # cols) h operations =
     (case map_of (h ! cleaned_df) col of
        None \<Rightarrow> (Inl (key_error col), h)
      | Some c \<Rightarrow>
          (if null_count c > 0 then
             (case median ext c of
                Inl e \<Rightarrow> (Inl e, h)
              | Inr median_val \<Rightarrow>
                  fill_numeric ext cleaned_df cols
                    (h[cleaned_df := set_column (h ! cleaned_df) col (fillna c median_val)])
                    (operations @ [PStr (''Filled '' @ col @ '' nulls with median: ''
                                         @ format ext '''' (cell_val median_val))]))
           else fill_numeric ext cleaned_df cols h operations))"

fun fill_categorical ::
  "extern \<Rightarrow> nat \<Rightarrow> string list \<Rightarrow> heap \<Rightarrow> pyval list \<Rightarrow> (py_exc + pyval list) \<times> heap" where
  "fill_categorical ext cleaned_df [] h operations = (Inr operations, h)"
| "fill_categorical ext cleaned_df (col # cols) h operations =
     (case map_of (h ! cleaned_df) col of
        None \<Rightarrow> (Inl (key_error col), h)
      | Some c \<Rightarrow>
          (if null_count c > 0 then
             (case mode ext c of
                Inl e \<Rightarrow> (Inl e, h)
              | Inr modes \<Rightarrow>
                  (let mode_val = (case modes of [] \<Rightarrow> Str ''Unknown'' | m # ms \<Rightarrow> m) in
                   fill_categorical ext cleaned_df cols
                     (h[cleaned_df := set_column (h ! cleaned_df) col (fillna c (Some mode_val))])
                     (operations @ [PStr (''Filled '' @ col @ '' nulls with mode: ''
                                          @ format ext '''' (cell_val (Some mode_val)))])))
           else fill_categorical ext cleaned_df cols h operations))"

definition isnull_sum :: "frame \<Rightarrow> pyval" where
  \<comment> \<open>\<open>df.isnull().sum().to_dict()\<close>\<close>
  "isnull_sum f = PDict (map (\<lambda>(name, c). (name, PInt (int (null_count c)))) f)"

definition shape_val :: "frame \<Rightarrow> pyval" where
  "shape_val f = PList [PInt (int (fst (shape f))), PInt (int (snd (shape f)))]"

text \<open>
  The body of the \<open>try\<close>: the value is the payload. \<open>data_summary\<close> only feeds the request
  to the service; of the calls that build it, \<open>df.duplicated()\<close> is the one that can raise.
  \<open>cleaned_df = df.copy()\<close> allocates the private copy, and \<open>drop_duplicates()\<close> a second
  one that \<open>cleaned_df\<close> then names.
\<close>

definition DataCleaningAgent_body ::
  "extern \<Rightarrow> adk_client option \<Rightarrow> heap \<Rightarrow> nat \<Rightarrow> (py_exc + pyval) \<times> heap" where
  "DataCleaningAgent_body ext client h df =
     (case duplicated_sum ext (h ! df) of
        Inl e \<Rightarrow> (Inl e, h)
      | Inr summary_duplicates \<Rightarrow>
     (case (if client \<noteq> None
            then fst (safe_call_adk (\<lambda>n. Inr (call_adk ext client n)) (random ext) 5 5)
            else Inr None) of
        Inl e \<Rightarrow> (Inl e, h)
      | Inr adk_resp \<Rightarrow>
     (let (cleaned_df, h1) = alloc h (h ! df);
          original_shape = shape_val (h1 ! df);
          missing_values_before = isnull_sum (h1 ! df);
          adk_recommendations =
            (case adk_resp of
               None \<Rightarrow> PNone
             | Some text \<Rightarrow>
                 (if text = [] then PNone
                  else (case json_loads ext text of Inl e \<Rightarrow> PStr text | Inr v \<Rightarrow> v)));
          numeric_cols = columns (select_dtypes np_number (h1 ! cleaned_df))
      in
     (case fill_numeric ext cleaned_df numeric_cols h1 [] of
        (Inl e, h2) \<Rightarrow> (Inl e, h2)
      | (Inr operations2, h2) \<Rightarrow>
     (case fill_categorical ext cleaned_df
             (columns (select_dtypes [Object, Category] (h2 ! cleaned_df))) h2 operations2 of
        (Inl e, h3) \<Rightarrow> (Inl e, h3)
      | (Inr operations3, h3) \<Rightarrow>
     (case duplicated_sum ext (h3 ! cleaned_df) of
        Inl e \<Rightarrow> (Inl e, h3)
      | Inr duplicates \<Rightarrow>
     (case (if duplicates > 0
            then (case drop_duplicates ext (h3 ! cleaned_df) of
                    Inl e \<Rightarrow> Inl e
                  | Inr deduplicated \<Rightarrow>
                      Inr (alloc h3 deduplicated,
                           operations3 @ [PStr (''Removed '' @ format ext '''' (PInt (int duplicates))
                                                @ '' duplicate rows'')]))
            else Inr ((cleaned_df, h3), operations3)) of
        Inl e \<Rightarrow> (Inl e, h3)
      | Inr ((cleaned_df4, h4), operations4) \<Rightarrow>
          (Inr (PDict
                  [(''cleaned_df'', PFrame (h4 ! cleaned_df4)),
                   (''report'', PDict
                      [(''original_shape'', original_shape),
                       (''missing_values_before'', missing_values_before),
                       (''operations'', PList operations4),
                       (''adk_recommendations'', adk_recommendations),
                       (''cleaned_shape'', shape_val (h4 ! cleaned_df4)),
                       (''missing_values_after'', isnull_sum (h4 ! cleaned_df4))])]),
           h4))))))))"

text \<open>
  \<^verbatim>\<open>
  async def execute(self, df):
      start = time.time()
      try:
          ...
          return AgentResult(agent_name=self.name, status="success",
                             data={"cleaned_df": cleaned_df, "report": cleaning_report},
                             execution_time=exec_time)
      except Exception as e:
          exec_time = time.time() - start
          return AgentResult(agent_name=self.name, status="error", data=None,
                             execution_time=exec_time, error=str(e))
  \<close>
\<close>

definition DataCleaningAgent_execute ::
  "extern \<Rightarrow> adk_client option \<Rightarrow> real \<Rightarrow> real \<Rightarrow> heap \<Rightarrow> nat
    \<Rightarrow> (py_exc + AgentResult) \<times> heap" where
  "DataCleaningAgent_execute ext client start now h df =
     (case DataCleaningAgent_body ext client h df of
        (Inr payload, h') \<Rightarrow>
          (Inr \<lparr>agent_name = ''Data Cleaning Agent'', status = ''success'', data = payload,
                 execution_time = now - start, error = None\<rparr>, h')
      | (Inl e, h') \<Rightarrow>
          (Inr \<lparr>agent_name = ''Data Cleaning Agent'', status = ''error'', data = PNone,
                 execution_time = now - start, error = Some (exc_str e)\<rparr>, h'))"

section \<open>agents/eda.py\<close>

definition opt_str :: "string option \<Rightarrow> pyval" where
  "opt_str x = (case x of None \<Rightarrow> PNone | Some s \<Rightarrow> PStr s)"

definition dropna_values :: "column \<Rightarrow> pyval" where
  "dropna_values c = PList (map cell_val (filter (\<lambda>x. x \<noteq> None) (snd c)))"

text \<open>
  \<^verbatim>\<open>
  for col in numeric_df.columns[:3]:
      ... ax.hist(df[col].dropna(), bins=30, ...) ... fig.savefig(buf, format='png', ...)
      eda_report['visualizations'].append({'type': f'distribution_{col}',
                                           'data': base64.b64encode(buf.read()).decode()})
  \<close>
\<close>

fun plot_distributions ::
  "extern \<Rightarrow> frame \<Rightarrow> string list \<Rightarrow> pyval list \<Rightarrow> py_exc + pyval list" where
  "plot_distributions ext f [] visualizations = Inr visualizations"
| "plot_distributions ext f (col # cols) visualizations =
     (case map_of f col of
        None \<Rightarrow> Inl (key_error col)
      | Some c \<Rightarrow>
          (case plot_png ext (''distribution_'' @ col) (dropna_values c) of
             Inl e \<Rightarrow> Inl e
           | Inr png \<Rightarrow>
               plot_distributions ext f cols
                 (visualizations @ [PDict [(''type'', PStr (''distribution_'' @ col)),
                                           (''data'', PStr png)]])))"

text \<open>
  The body of the \<open>try\<close> of \<open>EDAAgent.execute\<close>. It reads \<open>df\<close> and assigns to no dataframe.
  The request to the service has a handler of its own: an exception while the request
  is prepared leaves \<open>adk_insights\<close> at \<open>None\<close>.
\<close>

definition EDAAgent_body :: "extern \<Rightarrow> adk_client option \<Rightarrow> frame \<Rightarrow> py_exc + pyval" where
  "EDAAgent_body ext client f =
     (case describe ext True f of
        Inl e \<Rightarrow> Inl e
      | Inr basic_stats \<Rightarrow>
     (let data_types = PDict (map (\<lambda>(name, (dt, cells)). (name, PStr (dtype_str dt))) f);
          numeric_df = select_dtypes np_number f
      in
     (case (if length (columns numeric_df) > 1
            then (case corr ext numeric_df of
                    Inl e \<Rightarrow> Inl e
                  | Inr corr_matrix \<Rightarrow>
                      (case plot_png ext ''correlation_heatmap'' corr_matrix of
                         Inl e \<Rightarrow> Inl e
                       | Inr png \<Rightarrow>
                           Inr (corr_matrix,
                                [PDict [(''type'', PStr ''correlation_heatmap''),
                                        (''data'', PStr png)]])))
            else Inr (PDict [], [])) of
        Inl e \<Rightarrow> Inl e
      | Inr (correlations, visualizations1) \<Rightarrow>
     (case plot_distributions ext f (take 3 (columns numeric_df)) visualizations1 of
        Inl e \<Rightarrow> Inl e
      | Inr visualizations \<Rightarrow>
          (let adk_insights =
                 (if client \<noteq> None
                  then (case describe ext False f of
                          Inl e \<Rightarrow> PNone
                        | Inr statistics \<Rightarrow> opt_str (call_adk ext client 0))
                  else PNone)
           in Inr (PDict [(''basic_stats'', basic_stats),
                          (''data_types'', data_types),
                          (''correlations'', correlations),
                          (''visualizations'', PList visualizations),
                          (''adk_insights'', adk_insights)]))))))"

definition EDAAgent_execute ::
  "extern \<Rightarrow> adk_client option \<Rightarrow> real \<Rightarrow> real \<Rightarrow> heap \<Rightarrow> nat
    \<Rightarrow> (py_exc + AgentResult) \<times> heap" where
  "EDAAgent_execute ext client start_time now h df =
     (case EDAAgent_body ext client (h ! df) of
        Inr payload \<Rightarrow>
          (Inr \<lparr>agent_name = ''EDA Agent'', status = ''success'', data = payload,
                 execution_time = now - start_time, error = None\<rparr>, h)
      | Inl e \<Rightarrow>
          (Inr \<lparr>agent_name = ''EDA Agent'', status = ''error'', data = PNone,
                 execution_time = now - start_time, error = Some (exc_str e)\<rparr>, h))"

section \<open>agents/anomaly.py\<close>

text \<open>
  The names the module binds at top level, from its \<open>import\<close> statements, its assignments
  and its class definitions. A name used in a method that is not a local variable is
  looked up here (no builtin is called \<open>safe_call_adk\<close>); a name that is not bound raises
  \<open>NameError\<close>. The module never imports \<open>safe_call_adk\<close> from \<open>adk_helper\<close>.
\<close>

definition anomaly_module_names :: "string list" where
  "anomaly_module_names =
     [''time'', ''json'', ''np'', ''pd'', ''dataclass'', ''genai'', ''types'',
      ''ADK_AVAILABLE'', ''AgentResult'', ''AnomalyAgent'']"

definition lookup_global :: "string list \<Rightarrow> string \<Rightarrow> py_exc + unit" where
  "lookup_global names name =
     (if name \<in> set names then Inr ()
      else Inl (PyExc ''NameError''
                  (''name '' @ [CHR 0x27] @ name @ [CHR 0x27] @ '' is not defined'')))"

text \<open>
  \<^verbatim>\<open>
  for col in numeric_df.columns:
      Q1 = df[col].quantile(0.25); Q3 = df[col].quantile(0.75); IQR = Q3 - Q1
      lower_bound = Q1 - 1.5 * IQR; upper_bound = Q3 + 1.5 * IQR
      outliers = df[(df[col] < lower_bound) | (df[col] > upper_bound)]
      if len(outliers) > 0:
          report['outliers_by_column'][col] = {...}
          report['anomaly_summary'].append(...)
          report['total_anomalies'] += int(len(outliers))
  \<close>
  A quantile of a column with no value is \<open>NaN\<close> (\<open>None\<close>), and no comparison with \<open>NaN\<close>
  holds. The state of the loop is the three entries of \<open>report\<close> it updates.
\<close>

definition outlier_cells :: "column \<Rightarrow> real option \<Rightarrow> real option \<Rightarrow> cell option list" where
  "outlier_cells c lower_bound upper_bound =
     filter (\<lambda>x. case x of
                Some (Num v) \<Rightarrow>
                  (case lower_bound of None \<Rightarrow> False | Some l \<Rightarrow> v < l)
                  \<or> (case upper_bound of None \<Rightarrow> False | Some u \<Rightarrow> u < v)
              | _ \<Rightarrow> False) (snd c)"

fun detect_outliers ::
  "extern \<Rightarrow> frame \<Rightarrow> string list \<Rightarrow> (string \<times> pyval) list \<times> pyval list \<times> nat
    \<Rightarrow> py_exc + (string \<times> pyval) list \<times> pyval list \<times> nat" where
  "detect_outliers ext f [] report = Inr report"
| "detect_outliers ext f (col # cols) (outliers_by_column, anomaly_summary, total_anomalies) =
     (case map_of f col of
        None \<Rightarrow> Inl (key_error col)
      | Some c \<Rightarrow>
     (case quantile ext c (25 / 100) of
        Inl e \<Rightarrow> Inl e
      | Inr Q1 \<Rightarrow>
     (case quantile ext c (75 / 100) of
        Inl e \<Rightarrow> Inl e
      | Inr Q3 \<Rightarrow>
          (let IQR = (case (Q1, Q3) of (Some q1, Some q3) \<Rightarrow> Some (q3 - q1) | _ \<Rightarrow> None);
               lower_bound = (case (Q1, IQR) of (Some q1, Some i) \<Rightarrow> Some (q1 - 15 / 10 * i) | _ \<Rightarrow> None);
               upper_bound = (case (Q3, IQR) of (Some q3, Some i) \<Rightarrow> Some (q3 + 15 / 10 * i) | _ \<Rightarrow> None);
               outliers = outlier_cells c lower_bound upper_bound
           in
           if length outliers > 0 then
             (let percentage = real (length outliers) / real (fst (shape f)) * 100 in
              detect_outliers ext f cols
                (dict_set outliers_by_column col
                   (PDict [(''count'', PInt (int (length outliers))),
                           (''percentage'', PFloat percentage),
                           (''lower_bound'', cell_val (map_option Num lower_bound)),
                           (''upper_bound'', cell_val (map_option Num upper_bound)),
                           (''values'', PList (map cell_val (take 10 outliers)))]),
                 anomaly_summary @
                   [PStr (col @ '': '' @ format ext '''' (PInt (int (length outliers)))
                          @ '' outliers ('' @ format ext ''.2f'' (PFloat percentage) @ ''%)'')],
                 total_anomalies + length outliers))
           else detect_outliers ext f cols (outliers_by_column, anomaly_summary, total_anomalies)))))"

text \<open>
  \<^verbatim>\<open>
  if self.adk_client:
      try:
          adk_prompt = (...)
          report['adk_insights'] = await safe_call_adk(self, adk_prompt, report['outliers_by_column'])
      except Exception:
          report['adk_insights'] = None
  \<close>
  The call first evaluates the name \<open>safe_call_adk\<close>.
\<close>

definition AnomalyAgent_body :: "extern \<Rightarrow> adk_client option \<Rightarrow> frame \<Rightarrow> py_exc + pyval" where
  "AnomalyAgent_body ext client f =
     (case detect_outliers ext f (columns (select_dtypes np_number f)) ([], [], 0) of
        Inl e \<Rightarrow> Inl e
      | Inr (outliers_by_column, anomaly_summary, total_anomalies) \<Rightarrow>
          (let adk_insights =
                 (if client \<noteq> None
                  then (case lookup_global anomaly_module_names ''safe_call_adk'' of
                          Inl e \<Rightarrow> PNone
                        | Inr found \<Rightarrow>
                            (case fst (safe_call_adk (\<lambda>n. Inr (call_adk ext client n))
                                         (random ext) 5 5) of
                               Inl e \<Rightarrow> PNone
                             | Inr response \<Rightarrow> opt_str response))
                  else PNone)
           in Inr (PDict [(''outliers_by_column'', PDict outliers_by_column),
                          (''anomaly_summary'', PList anomaly_summary),
                          (''total_anomalies'', PInt (int total_anomalies)),
                          (''adk_insights'', adk_insights)])))"

definition AnomalyAgent_execute ::
  "extern \<Rightarrow> adk_client option \<Rightarrow> real \<Rightarrow> real \<Rightarrow> heap \<Rightarrow> nat
    \<Rightarrow> (py_exc + AgentResult) \<times> heap" where
  "AnomalyAgent_execute ext client start_time now h df =
     (case AnomalyAgent_body ext client (h ! df) of
        Inr payload \<Rightarrow>
          (Inr \<lparr>agent_name = ''Anomaly Detection Agent'', status = ''success'', data = payload,
                 execution_time = now - start_time, error = None\<rparr>, h)
      | Inl e \<Rightarrow>
          (Inr \<lparr>agent_name = ''Anomaly Detection Agent'', status = ''error'', data = PNone,
                 execution_time = now - start_time, error = Some (exc_str e)\<rparr>, h))"

section \<open>agents/ml_model.py\<close>

definition py_dict :: "(string \<times> 'v) list \<Rightarrow> (string \<times> 'v) list" where
  \<comment> \<open>\<open>dict(pairs)\<close>\<close>
  "py_dict pairs = foldl (\<lambda>d (k, v). dict_set d k v) [] pairs"

definition nunique :: "column \<Rightarrow> nat" where
  \<comment> \<open>\<open>series.nunique()\<close>: the distinct values, missing cells apart\<close>
  "nunique c = length (remdups (filter (\<lambda>x. x \<noteq> None) (snd c)))"

text \<open>
  \<^verbatim>\<open>
  X_pre = X.copy()
  for col in X_pre.select_dtypes(include=['object', 'category']).columns:
      X_pre[col] = LabelEncoder().fit_transform(X_pre[col].astype(str))
  \<close>
\<close>

fun encode_categorical ::
  "extern \<Rightarrow> nat \<Rightarrow> string list \<Rightarrow> heap \<Rightarrow> (py_exc + unit) \<times> heap" where
  "encode_categorical ext X_pre [] h = (Inr (), h)"
| "encode_categorical ext X_pre (col # cols) h =
     (case map_of (h ! X_pre) col of
        None \<Rightarrow> (Inl (key_error col), h)
      | Some c \<Rightarrow>
          (case label_encode ext c of
             Inl e \<Rightarrow> (Inl e, h)
           | Inr encoded \<Rightarrow>
               encode_categorical ext X_pre cols (h[X_pre := set_column (h ! X_pre) col encoded])))"

text \<open>
  The body of the \<open>try\<close> of \<open>MLAgent.execute\<close>. Two of its paths return an envelope before
  the end: too few numeric columns with no target given (a success), and a target that
  is not a column (an error envelope built by the body itself). \<open>X = df.drop(...)\<close> and
  \<open>X_pre = X.copy()\<close> allocate; \<open>y = df[target]\<close> and the \<open>fillna(0)\<close> frames handed to
  \<open>fit\<close> are values. \<open>fit_importances\<close> is \<open>model.fit(...)\<close> followed by
  \<open>model.feature_importances_\<close>, for the classifier when its first argument holds.
\<close>

definition MLAgent_body ::
  "extern \<Rightarrow> adk_client option \<Rightarrow> real \<Rightarrow> real \<Rightarrow> heap \<Rightarrow> nat \<Rightarrow> string option
    \<Rightarrow> (py_exc + AgentResult) \<times> heap" where
  "MLAgent_body ext client start_time now h df target =
     (let numeric_df = select_dtypes np_number (h ! df) in
      if target = None \<and> snd (shape numeric_df) < 2 then
        (Inr \<lparr>agent_name = ''ML Agent'', status = ''success'',
               data = PDict [(''model_type'', PStr ''feature_importance''),
                             (''feature_importance'', PDict []),
                             (''target'', PNone),
                             (''insights'', PList []),
                             (''adk_insights'', PNone)],
               execution_time = now - start_time, error = None\<rparr>, h)
      else
     (let target = (case target of None \<Rightarrow> hd (columns numeric_df) | Some t \<Rightarrow> t) in
      if target \<notin> set (columns (h ! df)) then
        (Inr \<lparr>agent_name = ''ML Agent'', status = ''error'', data = PNone,
               execution_time = now - start_time,
               error = Some (''Target column '' @ target @ '' not in dataframe'')\<rparr>, h)
      else
     (let (X, h1) = alloc h (drop_column (h ! df) target) in
      case map_of (h1 ! df) target of
        None \<Rightarrow> (Inl (key_error target), h1)
      | Some y \<Rightarrow>
     (let (X_pre, h2) = alloc h1 (h1 ! X) in
      case encode_categorical ext X_pre
             (columns (select_dtypes [Object, Category] (h2 ! X_pre))) h2 of
        (Inl e, h3) \<Rightarrow> (Inl e, h3)
      | (Inr done, h3) \<Rightarrow>
     (case fit_importances ext (fst y = Int64 \<and> nunique y \<le> 10)
             (map (\<lambda>(name, c). (name, fillna c (Some (Num 0)))) (h3 ! X_pre))
             (fillna y (Some (Num 0))) of
        Inl e \<Rightarrow> (Inl e, h3)
      | Inr feature_importances \<Rightarrow>
          (let importances = py_dict (zip (columns (h3 ! X_pre)) feature_importances);
               sorted_imp = py_dict (sort_key (\<lambda>(feat, score). - score) importances);
               insights = map (\<lambda>(feat, score).
                                 PStr (feat @ '' important (score=''
                                       @ format ext ''.3f'' (PFloat score) @ '')''))
                              (take 3 sorted_imp);
               adk_insights = (if client \<noteq> None then opt_str (call_adk ext client 0) else PNone)
           in (Inr \<lparr>agent_name = ''ML Agent'', status = ''success'',
                      data = PDict [(''model_type'', PStr ''feature_importance''),
                                    (''feature_importance'',
                                       PDict (map (\<lambda>(feat, score). (feat, PFloat score)) sorted_imp)),
                                    (''target'', PStr target),
                                    (''insights'', PList insights),
                                    (''adk_insights'', adk_insights)],
                      execution_time = now - start_time, error = None\<rparr>, h3)))))))"

definition MLAgent_execute ::
  "extern \<Rightarrow> adk_client option \<Rightarrow> real \<Rightarrow> real \<Rightarrow> heap \<Rightarrow> nat \<Rightarrow> string option
    \<Rightarrow> (py_exc + AgentResult) \<times> heap" where
  "MLAgent_execute ext client start_time now h df target =
     (case MLAgent_body ext client start_time now h df target of
        (Inr result, h') \<Rightarrow> (Inr result, h')
      | (Inl e, h') \<Rightarrow>
          (Inr \<lparr>agent_name = ''ML Agent'', status = ''error'', data = PNone,
                 execution_time = now - start_time, error = Some (exc_str e)\<rparr>, h'))"

section \<open>agents/insights.py\<close>

text \<open>
  The payloads are dicts of values of any type, and the code reads them as such: a
  method or an operator applied to a value of the wrong type raises.
\<close>

definition type_name :: "pyval \<Rightarrow> string" where
  "type_name x =
     (case x of
        PNone \<Rightarrow> ''NoneType'' | PBool b \<Rightarrow> ''bool'' | PInt i \<Rightarrow> ''int'' | PFloat r \<Rightarrow> ''float''
      | PStr s \<Rightarrow> ''str'' | PList l \<Rightarrow> ''list'' | PDict d \<Rightarrow> ''dict'' | PFrame f \<Rightarrow> ''DataFrame'')"

fun str_nat :: "nat \<Rightarrow> string" where
  \<comment> \<open>the decimal digits of a number\<close>
  "str_nat n =
     (if n < 10 then [char_of (48 + n)] else str_nat (n div 10) @ [char_of (48 + n mod 10)])"

definition quoted :: "string \<Rightarrow> string" where
  "quoted s = [CHR 0x27] @ s @ [CHR 0x27]"

definition py_get_default :: "pyval \<Rightarrow> string \<Rightarrow> pyval \<Rightarrow> py_exc + pyval" where
  \<comment> \<open>\<open>x.get(key, dflt)\<close>\<close>
  "py_get_default x key dflt =
     (case x of
        PDict d \<Rightarrow> Inr (case map_of d key of None \<Rightarrow> dflt | Some v \<Rightarrow> v)
      | PFrame f \<Rightarrow> (if key \<in> set (columns f) then py_get x key else Inr dflt)
      | _ \<Rightarrow> py_get x key)"

definition unpack_items :: "pyval list \<Rightarrow> py_exc + pyval \<times> pyval" where
  "unpack_items items =
     (case items of
        [a, b] \<Rightarrow> Inr (a, b)
      | [] \<Rightarrow> Inl (PyExc ''ValueError'' ''not enough values to unpack (expected 2, got 0)'')
      | [a] \<Rightarrow> Inl (PyExc ''ValueError'' ''not enough values to unpack (expected 2, got 1)'')
      | _ \<Rightarrow> Inl (PyExc ''ValueError'' ''too many values to unpack (expected 2)''))"

definition unpack2 :: "pyval \<Rightarrow> py_exc + pyval \<times> pyval" where
  \<comment> \<open>\<open>a, b = x\<close>: a string gives its characters, a dict its keys, a dataframe its
      column names\<close>
  "unpack2 x =
     (case x of
        PList l \<Rightarrow> unpack_items l
      | PStr s \<Rightarrow> unpack_items (map (\<lambda>ch. PStr [ch]) s)
      | PDict d \<Rightarrow> unpack_items (map PStr (keys d))
      | PFrame f \<Rightarrow> unpack_items (map PStr (columns f))
      | _ \<Rightarrow> Inl (PyExc ''TypeError'' (''cannot unpack non-iterable '' @ type_name x @ '' object'')))"

definition py_gt0 :: "pyval \<Rightarrow> py_exc + bool" where
  \<comment> \<open>the test \<open>if x > 0\<close>; for a dataframe the comparison is elementwise and the test
      of its result raises\<close>
  "py_gt0 x =
     (case x of
        PInt i \<Rightarrow> Inr (0 < i) | PFloat r \<Rightarrow> Inr (0 < r) | PBool b \<Rightarrow> Inr b
      | PFrame f \<Rightarrow>
          Inl (PyExc ''ValueError''
                 ''The truth value of a DataFrame is ambiguous. Use a.empty, a.bool(), a.item(), a.any() or a.all().'')
      | _ \<Rightarrow> Inl (PyExc ''TypeError''
                    (quoted ''>'' @ '' not supported between instances of '' @ quoted (type_name x)
                     @ '' and '' @ quoted ''int'')))"

definition first5 :: "pyval \<Rightarrow> py_exc + pyval list" where
  \<comment> \<open>the items \<open>key_findings.extend(x[:5])\<close> appends\<close>
  "first5 x =
     (case x of
        PList l \<Rightarrow> Inr (take 5 l)
      | PStr s \<Rightarrow> Inr (map (\<lambda>ch. PStr [ch]) (take 5 s))
      | PDict d \<Rightarrow> Inl (PyExc ''TypeError'' (''unhashable type: '' @ quoted ''slice''))
      | PFrame f \<Rightarrow> Inr (map PStr (columns f))
      | _ \<Rightarrow> Inl (PyExc ''TypeError'' (quoted (type_name x) @ '' object is not subscriptable'')))"

fun join_from :: "nat \<Rightarrow> pyval list \<Rightarrow> py_exc + string" where
  \<comment> \<open>\<open>"\n".join(lines)\<close> from item \<open>i\<close> on: every item must be a string\<close>
  "join_from i [] = Inr []"
| "join_from i (x # rest) =
     (case x of
        PStr s \<Rightarrow>
          (case join_from (Suc i) rest of
             Inl e \<Rightarrow> Inl e
           | Inr t \<Rightarrow> Inr (if rest = [] then s else s @ [CHR 0x0A] @ t))
      | _ \<Rightarrow> Inl (PyExc ''TypeError''
                    (''sequence item '' @ str_nat i @ '': expected str instance, ''
                     @ type_name x @ '' found'')))"

definition join_lines :: "pyval list \<Rightarrow> py_exc + string" where
  "join_lines lines = join_from 0 lines"

definition succeeded :: "(string \<times> AgentResult) list \<Rightarrow> string \<Rightarrow> pyval option" where
  \<comment> \<open>\<open>key in all_results and all_results[key].status == 'success'\<close>, with the data\<close>
  "succeeded all_results key =
     (case map_of all_results key of
        None \<Rightarrow> None
      | Some r \<Rightarrow> if status r = ''success'' then Some (data r) else None)"

text \<open>
  The body of the \<open>try\<close> of \<open>BusinessInsightsAgent.execute\<close>, in the order of the source:
  the summary of the service, the fallback summary from the cleaning report, the
  findings from the anomaly and the model results, the final fallback, the joined
  text.
\<close>

definition BusinessInsightsAgent_body ::
  "extern \<Rightarrow> adk_client option \<Rightarrow> (string \<times> AgentResult) list \<Rightarrow> py_exc + pyval" where
  "BusinessInsightsAgent_body ext client all_results =
     (let lines = (if client \<noteq> None
                   then (case call_adk ext client 0 of
                           None \<Rightarrow> []
                         | Some adk_text \<Rightarrow> if adk_text = [] then [] else nonempty_lines ext adk_text)
                   else []);
          executive_summary0 = (case lines of [] \<Rightarrow> PStr [] | l # ls \<Rightarrow> PStr l);
          key_findings0 = map PStr (take 5 (drop 1 lines));
          recommendations0 = map PStr (take 5 (drop 6 lines))
      in
     (case (case (if truthy executive_summary0 then None else succeeded all_results ''cleaning'') of
              None \<Rightarrow> Inr executive_summary0
            | Some cleaning_data \<Rightarrow>
                (case py_get_default cleaning_data ''report'' (PDict []) of
                   Inl e \<Rightarrow> Inl e
                 | Inr cr \<Rightarrow>
                (case py_get_default cr ''original_shape'' (PList [PInt 0, PInt 0]) of
                   Inl e \<Rightarrow> Inl e
                 | Inr original_shape \<Rightarrow>
                (case unpack2 original_shape of
                   Inl e \<Rightarrow> Inl e
                 | Inr (rows, cols) \<Rightarrow>
                     Inr (PStr (''Processed dataset with '' @ format ext '''' rows @ '' rows and ''
                                @ format ext '''' cols @ '' columns.'')))))) of
        Inl e \<Rightarrow> Inl e
      | Inr executive_summary1 \<Rightarrow>
     (case (case succeeded all_results ''anomaly'' of
              None \<Rightarrow> Inr (key_findings0, recommendations0)
            | Some an \<Rightarrow>
                (case py_get_default an ''total_anomalies'' (PInt 0) of
                   Inl e \<Rightarrow> Inl e
                 | Inr total_anomalies \<Rightarrow>
                (case py_gt0 total_anomalies of
                   Inl e \<Rightarrow> Inl e
                 | Inr positive \<Rightarrow>
                     (if positive
                      then Inr (key_findings0 @
                                  [PStr (''Detected '' @ format ext '''' total_anomalies
                                         @ '' anomalies across numeric columns.'')],
                                recommendations0 @
                                  [PStr ''Investigate outliers for data quality or business trends.''])
                      else Inr (key_findings0, recommendations0))))) of
        Inl e \<Rightarrow> Inl e
      | Inr (key_findings1, recommendations1) \<Rightarrow>
     (case (case succeeded all_results ''ml'' of
              None \<Rightarrow> Inr (key_findings1, recommendations1)
            | Some ml \<Rightarrow>
                (case py_get_default ml ''insights'' (PList []) of
                   Inl e \<Rightarrow> Inl e
                 | Inr ml_insights \<Rightarrow>
                     (if truthy ml_insights
                      then (case first5 ml_insights of
                              Inl e \<Rightarrow> Inl e
                            | Inr items \<Rightarrow>
                                Inr (key_findings1 @ items,
                                     recommendations1 @
                                       [PStr ''Leverage top features to improve predictive modeling and decision-making.'']))
                      else Inr (key_findings1, recommendations1)))) of
        Inl e \<Rightarrow> Inl e
      | Inr (key_findings, recommendations) \<Rightarrow>
          (let executive_summary =
                 (if truthy executive_summary1 then executive_summary1
                  else PStr ''No major findings detected. Dataset appears structured normally.'')
           in
           case join_lines (filter truthy ([executive_summary] @ key_findings @ recommendations)) of
             Inl e \<Rightarrow> Inl e
           | Inr adk_insights \<Rightarrow>
               Inr (PDict [(''executive_summary'', executive_summary),
                           (''key_findings'', PList key_findings),
                           (''recommendations'', PList recommendations),
                           (''adk_insights'', PStr adk_insights),
                           (''adk_insights_structured'',
                              PDict [(''Executive Summary'', executive_summary),
                                     (''Key Findings'', PList key_findings),
                                     (''Recommendations'', PList recommendations)])]))))))"

definition BusinessInsightsAgent_execute ::
  "extern \<Rightarrow> adk_client option \<Rightarrow> real \<Rightarrow> real \<Rightarrow> (string \<times> AgentResult) list
    \<Rightarrow> py_exc + AgentResult" where
  "BusinessInsightsAgent_execute ext client start_time now all_results =
     (case BusinessInsightsAgent_body ext client all_results of
        Inr payload \<Rightarrow>
          Inr \<lparr>agent_name = ''Business Insights Agent'', status = ''success'', data = payload,
                execution_time = now - start_time, error = None\<rparr>
      | Inl e \<Rightarrow>
          Inr \<lparr>agent_name = ''Business Insights Agent'', status = ''error'', data = PNone,
                execution_time = now - start_time, error = Some (exc_str e)\<rparr>)"

section \<open>agents/report.py\<close>

text \<open>
  \<open>_generate_pdf_report\<close> replaces an insights envelope without data by a default one
  (the source's \<open>Safeguard\<close>) and then builds the document with reportlab; \<open>render_pdf\<close>
  is that construction: the path of the file written, or the exception raised on the
  way.
  \<^verbatim>\<open>
  async def execute(self, all_results, business_insights):
      start_time = time.time()
      try:
          pdf_path = await self._generate_pdf_report(all_results, business_insights)
          exec_time = time.time() - start_time
          return AgentResult(agent_name=self.name, status='success',
                             data={'pdf_path': pdf_path}, execution_time=exec_time)
      except Exception as e:
          return AgentResult(agent_name=self.name, status='error', data=None,
                             execution_time=time.time() - start_time, error=str(e))
  \<close>
\<close>

definition generate_pdf_report ::
  "extern \<Rightarrow> (string \<times> AgentResult) list \<Rightarrow> AgentResult \<Rightarrow> py_exc + string" where
  "generate_pdf_report ext all_results business_insights =
     render_pdf ext all_results
       (if \<not> truthy (data business_insights)
        then \<lparr>agent_name = ''Business Insights Agent'', status = ''success'',
               data = PDict [(''executive_summary'', PStr ''No executive summary available.''),
                             (''adk_insights_structured'', PDict [])],
               execution_time = 0, error = None\<rparr>
        else business_insights)"

definition ReportAgent_execute ::
  "extern \<Rightarrow> real \<Rightarrow> real \<Rightarrow> (string \<times> AgentResult) list \<Rightarrow> AgentResult
    \<Rightarrow> py_exc + AgentResult" where
  "ReportAgent_execute ext start_time now all_results business_insights =
     (case generate_pdf_report ext all_results business_insights of
        Inr pdf_path \<Rightarrow>
          Inr \<lparr>agent_name = ''Report Generation Agent'', status = ''success'',
                data = PDict [(''pdf_path'', PStr pdf_path)],
                execution_time = now - start_time, error = None\<rparr>
      | Inl e \<Rightarrow>
          Inr \<lparr>agent_name = ''Report Generation Agent'', status = ''error'', data = PNone,
                execution_time = now - start_time, error = Some (exc_str e)\<rparr>)"

section \<open>main.py: the phase scheduler and the orchestrator\<close>

text \<open>
  \<open>asyncio.gather(*aws, return_exceptions=flag)\<close>, from its documentation. The awaitables
  are given by their outcomes, in the order they were passed; \<open>order\<close> lists the positions
  in the order the awaitables complete. Each completion is stored in the slot of its
  position. With the flag set, an exception is stored like a value; without it, the first
  exception to occur is raised by \<open>gather\<close>. When \<open>order\<close> ends with an empty slot left, an
  awaitable never completes and neither does \<open>gather\<close>: the result is \<open>None\<close>.
\<close>

fun gather_slots ::
  "bool \<Rightarrow> (py_exc + 'a) list \<Rightarrow> nat list \<Rightarrow> (py_exc + 'a) option list
    \<Rightarrow> (py_exc + (py_exc + 'a) list) option" where
  "gather_slots return_exceptions aws [] slots =
     (if list_all (\<lambda>s. s \<noteq> None) slots then Some (Inr (map the slots)) else None)"
| "gather_slots return_exceptions aws (i # order) slots =
     (if i < length aws then
        (case aws ! i of
           Inl e \<Rightarrow>
             (if return_exceptions
              then gather_slots return_exceptions aws order (slots[i := Some (Inl e)])
              else Some (Inl e))
         | Inr v \<Rightarrow> gather_slots return_exceptions aws order (slots[i := Some (Inr v)]))
      else gather_slots return_exceptions aws order slots)"

definition gather ::
  "bool \<Rightarrow> (py_exc + 'a) list \<Rightarrow> nat list \<Rightarrow> (py_exc + (py_exc + 'a) list) option" where
  "gather return_exceptions aws order =
     gather_slots return_exceptions aws order (replicate (length aws) None)"

text \<open>
  \<^verbatim>\<open>
  keys = list(tasks.keys())
  completed = await asyncio.gather(*tasks.values(), return_exceptions=True)
  results = {}
  for k, res in zip(keys, completed):
      if isinstance(res, Exception):
          results[k] = type('R', (), {'agent_name': k, 'status': 'error', 'data': None,
                                      'execution_time': 0, 'error': str(res)})()
      else:
          results[k] = res
      status = 'SUCCESS' if results[k].status=='success' else 'ERROR'
      print(f"{results[k].agent_name:<25} {status:<8} ({results[k].execution_time:.2f}s)")
  \<close>
  \<open>tasks\<close> is the dict of the phase: task name and the outcome of awaiting its coroutine.
  The object of class \<open>R\<close> has the attributes of an \<open>AgentResult\<close> and is one here. The
  \<open>print\<close> reads attributes that every entry has and is left out.
\<close>

fun collect_results ::
  "(string \<times> AgentResult) list \<Rightarrow> (string \<times> (py_exc + AgentResult)) list
    \<Rightarrow> (string \<times> AgentResult) list" where
  "collect_results results [] = results"
| "collect_results results ((k, res) # rest) =
     collect_results
       (dict_set results k
          (case res of
             Inl exc \<Rightarrow> \<lparr>agent_name = k, status = ''error'', data = PNone,
                         execution_time = 0, error = Some (exc_str exc)\<rparr>
           | Inr r \<Rightarrow> r))
       rest"

definition run_phase ::
  "(string \<times> (py_exc + AgentResult)) list \<Rightarrow> nat list
    \<Rightarrow> (py_exc + (string \<times> AgentResult) list) option" where
  "run_phase tasks order =
     (case gather True (map snd tasks) order of
        None \<Rightarrow> None
      | Some (Inl e) \<Rightarrow> Some (Inl e)
      | Some (Inr completed) \<Rightarrow> Some (Inr (collect_results [] (zip (keys tasks) completed))))"

text \<open>
  The agents of a run, by what awaiting their \<open>execute\<close> coroutines yields. \<open>run_pipeline\<close>
  receives the outcome of \<open>load_csv_with_fallback(csv_path)\<close>, the target and the
  completion order of the first phase.
  \<^verbatim>\<open>
  tasks = {'cleaning': cleaning_agent.execute(df), 'eda': eda_agent.execute(df),
           'anomaly': anomaly_agent.execute(df), 'ml': ml_agent.execute(df, target)}
  ...
  insights = await insights_agent.execute(results)
  report = await report_agent.execute(results, insights)
  ...
  print(f'PDF report at:', report.data.get('pdf_path'))
  return {'agent_results': results, 'insights': insights, 'report': report}
  \<close>
\<close>

record agents =
  cleaning_agent :: "frame \<Rightarrow> py_exc + AgentResult"
  eda_agent :: "frame \<Rightarrow> py_exc + AgentResult"
  anomaly_agent :: "frame \<Rightarrow> py_exc + AgentResult"
  ml_agent :: "frame \<Rightarrow> string option \<Rightarrow> py_exc + AgentResult"
  insights_agent :: "(string \<times> AgentResult) list \<Rightarrow> py_exc + AgentResult"
  report_agent :: "(string \<times> AgentResult) list \<Rightarrow> AgentResult \<Rightarrow> py_exc + AgentResult"

record pipeline_result =
  agent_results :: "(string \<times> AgentResult) list"
  insights :: AgentResult
  report :: AgentResult

definition run_pipeline ::
  "agents \<Rightarrow> py_exc + frame \<Rightarrow> string option \<Rightarrow> nat list
    \<Rightarrow> (py_exc + pipeline_result) option" where
  "run_pipeline ag loaded target order =
     (case loaded of
        Inl e \<Rightarrow> Some (Inl e)
      | Inr df \<Rightarrow>
          (case run_phase
                  [(''cleaning'', cleaning_agent ag df), (''eda'', eda_agent ag df),
                   (''anomaly'', anomaly_agent ag df), (''ml'', ml_agent ag df target)]
                  order of
             None \<Rightarrow> None
           | Some (Inl e) \<Rightarrow> Some (Inl e)
           | Some (Inr results) \<Rightarrow>
               (case insights_agent ag results of
                  Inl e \<Rightarrow> Some (Inl e)
                | Inr ins \<Rightarrow>
                    (case report_agent ag results ins of
                       Inl e \<Rightarrow> Some (Inl e)
                     | Inr rep \<Rightarrow>
                         (case py_get (data rep) ''pdf_path'' of
                            Inl e \<Rightarrow> Some (Inl e)
                          | Inr pdf_path \<Rightarrow>
                              Some (Inr \<lparr>agent_results = results, insights = ins, report = rep\<rparr>))))))"

text \<open>
  The agents \<open>run_pipeline\<close> constructs: the six classes of the repository, each given
  the module's \<open>ADK_CLIENT\<close>. \<open>clock i\<close> is the pair of clock readings of the \<open>i\<close>-th agent.
  Each task of the first phase runs on a heap that holds the shared dataframe at
  address 0.
\<close>

definition repo_agents :: "extern \<Rightarrow> adk_client option \<Rightarrow> (nat \<Rightarrow> real \<times> real) \<Rightarrow> agents" where
  "repo_agents ext ADK_CLIENT clock =
     \<lparr>cleaning_agent =
        (\<lambda>df. fst (DataCleaningAgent_execute ext ADK_CLIENT (fst (clock 0)) (snd (clock 0)) [df] 0)),
      eda_agent =
        (\<lambda>df. fst (EDAAgent_execute ext ADK_CLIENT (fst (clock 1)) (snd (clock 1)) [df] 0)),
      anomaly_agent =
        (\<lambda>df. fst (AnomalyAgent_execute ext ADK_CLIENT (fst (clock 2)) (snd (clock 2)) [df] 0)),
      ml_agent =
        (\<lambda>df target.
           fst (MLAgent_execute ext ADK_CLIENT (fst (clock 3)) (snd (clock 3)) [df] 0 target)),
      insights_agent =
        BusinessInsightsAgent_execute ext ADK_CLIENT (fst (clock 4)) (snd (clock 4)),
      report_agent = ReportAgent_execute ext (fst (clock 5)) (snd (clock 5))\<rparr>"

text \<open>
  The shape of an envelope: a success carries a payload that is not empty and no error;
  a failure carries no payload and an error text, which is \<open>str(e)\<close> of the exception and
  so may be the empty string.
\<close>

definition envelope_ok :: "AgentResult \<Rightarrow> bool" where
  "envelope_ok r \<longleftrightarrow>
     (status r = ''success'' \<and> truthy (data r) \<and> error r = None)
     \<or> (status r = ''error'' \<and> data r = PNone \<and> error r \<noteq> None)"

section \<open>Concrete runs\<close>

text \<open>A phase of three tasks; the second raises.\<close>

definition faulty_phase :: "(string \<times> (py_exc + AgentResult)) list" where
  "faulty_phase =
     [(''cleaning'', Inr \<lparr>agent_name = ''Data Cleaning Agent'', status = ''success'',
                           data = PDict [(''report'', PDict [])], execution_time = 1, error = None\<rparr>),
      (''eda'', Inl (PyExc ''RuntimeError'' ''boom'')),
      (''anomaly'', Inr \<lparr>agent_name = ''Anomaly Detection Agent'', status = ''success'',
                           data = PDict [(''total_anomalies'', PInt 0)], execution_time = 2, error = None\<rparr>)]"

text \<open>
  A dataframe with a missing price and a missing city, and an outside world in which
  every library call succeeds and the service has no answer.
\<close>

definition toy_df :: frame where
  "toy_df =
     [(''price'', (Float64, [Some (Num 1), None, Some (Num 3)])),
      (''city'', (Object, [Some (Str ''a''), None, Some (Str ''a'')]))]"

definition plain_ext :: extern where
  "plain_ext =
     \<lparr>ADK_AVAILABLE = True,
      generate_content = (\<lambda>n. Inr None),
      random = (\<lambda>n. 2 ^ 52),
      format = (\<lambda>spec v. ''?''),
      json_loads = (\<lambda>s. Inr (PStr s)),
      nonempty_lines = (\<lambda>s. [s]),
      duplicated_sum = (\<lambda>f. Inr 0),
      drop_duplicates = (\<lambda>f. Inr f),
      median = (\<lambda>c. Inr (Some (Num 2))),
      mode = (\<lambda>c. Inr [Str ''a'']),
      quantile = (\<lambda>c q. Inr (Some 2)),
      describe = (\<lambda>everything f. Inr (PDict [])),
      corr = (\<lambda>f. Inr (PDict [])),
      plot_png = (\<lambda>kind v. Inr ''iVBORw0KGgo=''),
      label_encode = (\<lambda>c. Inr (Int64, map (\<lambda>x. Some (Num 0)) (snd c))),
      fit_importances = (\<lambda>classifier X y. Inr (map (\<lambda>c. 1) X)),
      render_pdf = (\<lambda>all_results business_insights. Inr ''project/analysis_report.pdf'')\<rparr>"

text \<open>
  The same world, but reportlab rejects a paragraph (\<open>bad_markup_ext\<close>), or the report
  fails with an exception that carries no message (\<open>silent_ext\<close>), or pandas cannot
  hash a cell (\<open>unhashable_ext\<close>).
\<close>

definition bad_markup_ext :: extern where
  "bad_markup_ext =
     plain_ext\<lparr>render_pdf :=
       (\<lambda>all_results business_insights. Inl (PyExc ''ValueError'' ''paraparser: syntax error''))\<rparr>"

definition silent_ext :: extern where
  "silent_ext =
     plain_ext\<lparr>render_pdf :=
       (\<lambda>all_results business_insights. Inl (PyExc ''AssertionError'' []))\<rparr>"

definition unhashable_ext :: extern where
  "unhashable_ext =
     plain_ext\<lparr>duplicated_sum := (\<lambda>f. Inl (PyExc ''TypeError'' ''unhashable type''))\<rparr>"

definition unit_clock :: "nat \<Rightarrow> real \<times> real" where
  "unit_clock i = (0, 1)"

definition no_insights :: AgentResult where
  "no_insights =
     \<lparr>agent_name = ''Business Insights Agent'', status = ''error'', data = PNone,
      execution_time = 1, error = Some ''boom''\<rparr>"

text \<open>A world in which every agent meets a failing library call, and a result set whose
  anomaly payload holds a count of the wrong type.\<close>

definition faulty_ext :: extern where
  "faulty_ext =
     plain_ext\<lparr>duplicated_sum := (\<lambda>f. Inl (PyExc ''TypeError'' ''unhashable type'')),
                describe := (\<lambda>everything f. Inl (PyExc ''ValueError'' ''nothing to describe'')),
                quantile := (\<lambda>c q. Inl (PyExc ''TypeError'' ''no quantile'')),
                label_encode := (\<lambda>c. Inl (PyExc ''MemoryError'' [])),
                render_pdf :=
                  (\<lambda>all_results business_insights. Inl (PyExc ''OSError'' ''disk full''))\<rparr>"

definition odd_results :: "(string \<times> AgentResult) list" where
  "odd_results =
     [(''anomaly'', \<lparr>agent_name = ''Anomaly Detection Agent'', status = ''success'',
                     data = PDict [(''total_anomalies'', PStr ''many'')],
                     execution_time = 1, error = None\<rparr>)]"

section \<open>Properties of the float conversion\<close>

declare bitlen.simps [simp del]

lemma bitlen_0 [simp]: "bitlen 0 = 0"
  by (simp add: bitlen.simps)

lemma bitlen_pos: "0 < n \<Longrightarrow> bitlen n = Suc (bitlen (n div 2))"
  by (subst bitlen.simps) simp

lemma bitlen_bounds: "0 < n \<Longrightarrow> 2 ^ (bitlen n - 1) \<le> n \<and> n < 2 ^ bitlen n"
proof (induction n rule: bitlen.induct)
  case (1 n)
  show ?case
  proof (cases "n div 2 = 0")
    case True
    with 1 have "n = 1" by auto
    then show ?thesis by (simp add: bitlen_pos)
  next
    case False
    then have pos: "0 < n div 2" by simp
    with 1 have ih: "2 ^ (bitlen (n div 2) - 1) \<le> n div 2" "n div 2 < 2 ^ bitlen (n div 2)"
      by auto
    have b: "bitlen n = Suc (bitlen (n div 2))" using 1(2) by (rule bitlen_pos)
    have bp: "0 < bitlen (n div 2)" using pos by (simp add: bitlen_pos)
    then have e: "bitlen n - 1 = Suc (bitlen (n div 2) - 1)" using b by simp
    have "2 ^ (bitlen n - 1) = 2 * 2 ^ (bitlen (n div 2) - 1)" unfolding e by simp
    also have "\<dots> \<le> 2 * (n div 2)" using ih(1) by simp
    also have "\<dots> \<le> n" by simp
    finally have lo: "2 ^ (bitlen n - 1) \<le> n" .
    have "n < 2 * (n div 2) + 2" by presburger
    also have "\<dots> \<le> 2 * 2 ^ bitlen (n div 2)" using ih(2) by simp
    finally have "n < 2 ^ bitlen n" unfolding b by simp
    with lo show ?thesis by simp
  qed
qed

lemma bitlen_eqI: "2 ^ k \<le> n \<Longrightarrow> n < 2 ^ Suc k \<Longrightarrow> bitlen n = Suc k"
proof -
  assume lo: "2 ^ k \<le> n" and hi: "n < 2 ^ Suc k"
  then have pos: "0 < n" by (metis gr0I not_le zero_less_numeral zero_less_power)
  from bitlen_bounds[OF pos] have b1: "2 ^ (bitlen n - 1) \<le> n" and b2: "n < 2 ^ bitlen n" by auto
  from lo b2 have "(2::nat) ^ k < 2 ^ bitlen n" by (rule le_less_trans)
  then have 1: "k < bitlen n" by simp
  from b1 hi have "(2::nat) ^ (bitlen n - 1) < 2 ^ Suc k" by (rule le_less_trans)
  then have "bitlen n - 1 < Suc k" by (simp only: power_strict_increasing_iff one_less_numeral_iff semiring_norm)
  with 1 show ?thesis by simp
qed


lemma bitlen_shift: "0 < m \<Longrightarrow> bitlen (m * 2 ^ k) = bitlen m + k"
proof -
  assume pm: "0 < m"
  from bitlen_bounds[OF pm] have lo: "2 ^ (bitlen m - 1) \<le> m" and hi: "m < 2 ^ bitlen m" by auto
  have bp: "0 < bitlen m" using pm by (simp add: bitlen_pos)
  have "2 ^ (bitlen m - 1 + k) \<le> m * 2 ^ k" using lo by (simp add: power_add)
  moreover have "m * 2 ^ k < 2 ^ Suc (bitlen m - 1 + k)"
    using hi bp by (simp add: power_add[symmetric] del: power_Suc) (simp add: power_add)
  ultimately have "bitlen (m * 2 ^ k) = Suc (bitlen m - 1 + k)" by (rule bitlen_eqI)
  with bp show ?thesis by simp
qed



lemma round_half_even_exact: "2 ^ s dvd n \<Longrightarrow> round_half_even n s = n div 2 ^ s"
  by (simp add: round_half_even_def Let_def mod_eq_0_iff_dvd)


lemma to_double_small: "bitlen n \<le> 53 \<Longrightarrow> to_double n = n"
  by (simp add: to_double_def round_half_even_def Let_def)

lemma to_double_0 [simp]: "to_double 0 = 0"
  by (simp add: to_double_small)

lemma to_double_exactI:
  assumes "2 ^ (bitlen n - 53) dvd n"
  shows "to_double n = n"
  using assms by (simp add: to_double_def Let_def round_half_even_exact)

lemma to_double_dvd: "2 ^ (bitlen n - 53) dvd to_double n"
  by (simp add: to_double_def Let_def)





lemma to_double_scale:
  assumes "to_double n = n"
  shows "to_double (n * 2 ^ k) = n * 2 ^ k"
proof (cases "n = 0")
  case True
  then show ?thesis by simp
next
  case False
  then have pos: "0 < n" by simp
  let ?s = "bitlen n - 53"
  have d: "2 ^ ?s dvd n" using to_double_dvd[of n] assms by simp
  have bl: "bitlen (n * 2 ^ k) = bitlen n + k" using pos by (rule bitlen_shift)
  have "bitlen n + k - 53 \<le> ?s + k" by simp
  then have "(2::nat) ^ (bitlen n + k - 53) dvd 2 ^ (?s + k)" by (rule le_imp_power_dvd)
  also have "(2::nat) ^ (?s + k) = 2 ^ ?s * 2 ^ k" by (simp add: power_add)
  also have "\<dots> dvd n * 2 ^ k" using d by (rule mult_dvd_mono) simp
  finally show ?thesis by (intro to_double_exactI) (simp add: bl)
qed


lemma round_int_nonneg: "0 \<le> n \<Longrightarrow> round_int n = int (to_double (nat n))"
  by (cases "n = 0") (simp_all add: round_int_def)

lemma round_int_neg: "n < 0 \<Longrightarrow> round_int n = - int (to_double (nat (- n)))"
  by (simp add: round_int_def)



lemma round_int_scale:
  assumes "round_int a = a"
  shows "round_int (a * 2 ^ k) = a * 2 ^ k"
proof (cases "0 \<le> a")
  case True
  then have t: "to_double (nat a) = nat a" using assms by (simp add: round_int_nonneg)
  have "nat (a * 2 ^ k) = nat a * nat (2 ^ k)" using True by (intro nat_mult_distrib)
  moreover have "nat ((2::int) ^ k) = 2 ^ k" by (simp add: nat_power_eq)
  ultimately have "nat (a * 2 ^ k) = nat a * 2 ^ k" by metis
  with to_double_scale[OF t, of k] True show ?thesis
    by (simp add: round_int_nonneg)
next
  case False
  then have a: "a < 0" by simp
  then have t: "to_double (nat (- a)) = nat (- a)" using assms by (simp add: round_int_neg)
  have neg: "a * 2 ^ k < 0" using a by (simp add: mult_less_0_iff)
  have "- (a * 2 ^ k) = (- a) * 2 ^ k" by simp
  moreover have "nat ((- a) * 2 ^ k) = nat (- a) * nat (2 ^ k)"
    using a by (intro nat_mult_distrib) simp
  moreover have "nat ((2::int) ^ k) = 2 ^ k" by (simp add: nat_power_eq)
  ultimately have "nat (- (a * 2 ^ k)) = nat (- a) * 2 ^ k" by metis
  with to_double_scale[OF t, of k] a neg show ?thesis
    by (simp add: round_int_neg)
qed

lemma bitlen_le: "n < 2 ^ k \<Longrightarrow> bitlen n \<le> k"
proof (cases "n = 0")
  case True
  then show ?thesis by simp
next
  case False
  assume "n < 2 ^ k"
  with bitlen_bounds[of n] False have "(2::nat) ^ (bitlen n - 1) < 2 ^ k" by (meson le_less_trans neq0_conv)
  then have "bitlen n - 1 < k" by simp
  then show ?thesis by simp
qed

lemma round_int_small: "\<bar>b\<bar> < 2 ^ 53 \<Longrightarrow> round_int b = b"
proof -
  assume b: "\<bar>b\<bar> < 2 ^ 53"
  then have "nat \<bar>b\<bar> < 2 ^ 53" by (simp add: nat_less_iff)
  then have "bitlen (nat \<bar>b\<bar>) \<le> 53" by (rule bitlen_le)
  then have "to_double (nat \<bar>b\<bar>) = nat \<bar>b\<bar>" by (rule to_double_small)
  then show ?thesis by (simp add: round_int_def mult_sgn_abs)
qed

lemma round_int_product: "\<bar>b\<bar> < 2 ^ 53 \<Longrightarrow> round_int (b * 2 ^ k) = b * 2 ^ k"
  by (rule round_int_scale) (rule round_int_small)


section \<open>Properties of the retrying invoker\<close>

lemma not_overflow_small:
  assumes "\<bar>b\<bar> < 2 ^ 53" and "\<bar>b\<bar> * 2 ^ k < 2 ^ 1024"
  shows "\<not> float_overflow (b * 2 ^ k)"
  using assms by (simp add: float_overflow_def round_int_product abs_mult)

lemma not_overflow_default: "k < 1022 \<Longrightarrow> \<not> float_overflow (5 * 2 ^ k)"
proof -
  assume "k < 1022"
  then have "(2::int) ^ k \<le> 2 ^ 1021" by (intro power_increasing) simp_all
  then have "5 * (2::int) ^ k \<le> 5 * 2 ^ 1021" by simp
  also have "\<dots> < 2 ^ 1024" by simp
  finally have "\<bar>5::int\<bar> * 2 ^ k < 2 ^ 1024" by simp
  then show ?thesis by (intro not_overflow_small) simp_all
qed

lemma int_to_float_ok: "\<not> float_overflow n \<Longrightarrow> int_to_float n = Inr (round_int n)"
  by (simp add: int_to_float_def)

lemma safe_call_loop_all_none:
  assumes "\<forall>n. operation n = Inr None"
    and "\<forall>j\<in>set xs. \<not> float_overflow (bd * 2 ^ j)"
  shows "fst (safe_call_loop operation rnd bd xs s) = Inr None
       \<and> calls (snd (safe_call_loop operation rnd bd xs s)) = calls s + length xs"
  using assms by (induction xs arbitrary: s) (simp_all add: Let_def int_to_float_ok)

lemma safe_call_loop_step:
  assumes "a < b" and "operation (calls s) = Inr None" and "\<not> float_overflow (bd * 2 ^ a)"
  shows "safe_call_loop operation rnd bd [a..<b] s =
     safe_call_loop operation rnd bd [Suc a..<b]
       (s\<lparr>calls := Suc (calls s),
          slept := slept s @ [float_add (round_int (bd * 2 ^ a)) (rnd (length (slept s)) mod 2 ^ 53)],
          printed := printed s
            @ [Retrying (float_add (round_int (bd * 2 ^ a)) (rnd (length (slept s)) mod 2 ^ 53))]\<rparr>)"
  using assms by (simp add: upt_conv_Cons Let_def int_to_float_ok)

lemma safe_call_loop_first_present:
  assumes "\<forall>n. a \<le> n \<and> n < k \<longrightarrow> operation n = Inr None"
    and "\<forall>j. a \<le> j \<and> j < k \<longrightarrow> \<not> float_overflow (bd * 2 ^ j)"
    and "operation k = Inr (Some r)" and "a \<le> k" and "k < b" and "calls s = a"
  shows "fst (safe_call_loop operation rnd bd [a..<b] s) = Inr (Some r)
       \<and> calls (snd (safe_call_loop operation rnd bd [a..<b] s)) = Suc k
       \<and> length (slept (snd (safe_call_loop operation rnd bd [a..<b] s))) = length (slept s) + (k - a)"
  using assms
proof (induction "k - a" arbitrary: a s)
  case 0
  then have "a = k" by simp
  with 0 show ?case by (simp add: upt_conv_Cons Let_def)
next
  case (Suc d)
  then have lt: "a < k" and none: "operation (calls s) = Inr None"
    and conv: "\<not> float_overflow (bd * 2 ^ a)" by auto
  have ab: "a < b" using lt Suc.prems by simp
  note step = safe_call_loop_step[where operation = operation and s = s and rnd = rnd and bd = bd, OF ab none conv]
  have "d = k - Suc a" using Suc.hyps by simp
  from Suc.hyps(1)[OF this] Suc.prems lt
  show ?case unfolding step by auto
qed

lemma safe_call_loop_overflow:
  assumes "\<forall>n. a \<le> n \<and> n \<le> k \<longrightarrow> operation n = Inr None"
    and "\<forall>j. a \<le> j \<and> j < k \<longrightarrow> \<not> float_overflow (bd * 2 ^ j)"
    and "float_overflow (bd * 2 ^ k)" and "a \<le> k" and "k < b" and "calls s = a"
  shows "fst (safe_call_loop operation rnd bd [a..<b] s)
           = Inl (PyExc ''OverflowError'' ''int too large to convert to float'')
       \<and> calls (snd (safe_call_loop operation rnd bd [a..<b] s)) = Suc k"
  using assms
proof (induction "k - a" arbitrary: a s)
  case 0
  then have "a = k" by simp
  with 0 show ?case by (simp add: upt_conv_Cons Let_def int_to_float_def)
next
  case (Suc d)
  then have lt: "a < k" and none: "operation (calls s) = Inr None"
    and conv: "\<not> float_overflow (bd * 2 ^ a)" by auto
  have ab: "a < b" using lt Suc.prems by simp
  note step = safe_call_loop_step[where operation = operation and s = s and rnd = rnd and bd = bd, OF ab none conv]
  have "d = k - Suc a" using Suc.hyps by simp
  from Suc.hyps(1)[OF this] Suc.prems lt
  show ?case unfolding step by auto
qed








text \<open>
  Claim C3, amended. When every invocation of the operation yields \<open>None\<close>, \<open>retries\<close> is
  not negative and the product \<open>base_delay * 2 ** k\<close> converts to a float for every attempt
  \<open>k\<close> below \<open>retries\<close>, \<open>safe_call_adk\<close> invokes the operation exactly \<open>retries\<close> times and
  then returns \<open>None\<close>: a value (\<open>Inr\<close>), not an exception. With the default \<open>base_delay\<close> of 5
  that is every \<open>retries\<close> up to 1022, the witness.
\<close>
theorem safe_call_adk_exhausts:
  assumes "\<forall>n. operation n = Inr None" and "0 \<le> retries"
    and "\<forall>k. int k < retries \<longrightarrow> \<not> float_overflow (base_delay * 2 ^ k)"
  shows "fst (safe_call_adk operation rnd retries base_delay) = Inr None
       \<and> int (calls (snd (safe_call_adk operation rnd retries base_delay))) = retries"
proof -
  have "\<forall>j\<in>set (py_range retries). \<not> float_overflow (base_delay * 2 ^ j)"
    using assms(3) by (auto simp: py_range_def)
  from safe_call_loop_all_none[OF assms(1) this, of rnd retry_init] assms(2)
  show ?thesis by (simp add: safe_call_adk_def py_range_def retry_init_def)
qed

theorem safe_call_adk_exhausts_witness:
  "(\<forall>n. always_none n = Inr None) \<and> (0::int) \<le> 1022
   \<and> fst (safe_call_adk always_none half_jitter 1022 5) = Inr None
   \<and> int (calls (snd (safe_call_adk always_none half_jitter 1022 5))) = 1022"
proof -
  have c: "\<forall>k. int k < 1022 \<longrightarrow> \<not> float_overflow (5 * 2 ^ k)"
    by (simp add: not_overflow_default)
  show ?thesis
    using safe_call_adk_exhausts[of always_none 1022 5 half_jitter] c
    by (simp add: always_none_def)
qed

lemma overflow_minus_one: "float_overflow (- 1 * 2 ^ 1024)"
proof -
  have "round_int (- 1 * 2 ^ 1024) = - 1 * 2 ^ 1024" by (rule round_int_product) simp
  then show ?thesis by (simp add: float_overflow_def)
qed

lemma no_overflow_minus_one: "j < 1024 \<Longrightarrow> \<not> float_overflow (- 1 * 2 ^ j)"
proof -
  assume "j < 1024"
  then have "(2::int) ^ j < 2 ^ 1024" by (intro power_strict_increasing) simp_all
  then have "\<bar>- 1 :: int\<bar> * 2 ^ j < 2 ^ 1024" by simp
  then show ?thesis by (intro not_overflow_small) simp_all
qed

lemma overflow_default: "float_overflow (5 * 2 ^ 1022)"
proof -
  have "round_int (5 * 2 ^ 1022) = 5 * 2 ^ 1022" by (rule round_int_product) simp
  then show ?thesis by (simp add: float_overflow_def)
qed

text \<open>
  Claim C3, as stated, fails. With \<open>base_delay = -1\<close> (every sleep returns at once) and
  1025 retries the operation that always yields \<open>None\<close> is invoked 1025 times and the
  delay of attempt 1024 raises \<open>OverflowError\<close>; with the default \<open>base_delay\<close> the same
  happens at 1023 retries. And an operation whose result is always empty but present
  (the empty string) is invoked once and its result returned.
\<close>
theorem safe_call_adk_exhausts_counterexample:
  "fst (safe_call_adk always_none half_jitter 1025 (- 1))
     = Inl (PyExc ''OverflowError'' ''int too large to convert to float'')
   \<and> calls (snd (safe_call_adk always_none half_jitter 1025 (- 1))) = 1025
   \<and> fst (safe_call_adk always_none half_jitter 1023 5)
     = Inl (PyExc ''OverflowError'' ''int too large to convert to float'')
   \<and> fst (safe_call_adk always_empty_string half_jitter 5 5) = Inr (Some [])
   \<and> calls (snd (safe_call_adk always_empty_string half_jitter 5 5)) = 1"
proof -
  have none: "\<forall>n. 0 \<le> n \<and> n \<le> k \<longrightarrow> always_none n = Inr None" for k
    by (simp add: always_none_def)
  have init: "calls retry_init = 0" by (simp add: retry_init_def)
  have m: "\<forall>j. 0 \<le> j \<and> j < 1024 \<longrightarrow> \<not> float_overflow (- 1 * 2 ^ j)"
    using no_overflow_minus_one by blast
  have 1: "fst (safe_call_loop always_none half_jitter (- 1) [0..<1025] retry_init)
           = Inl (PyExc ''OverflowError'' ''int too large to convert to float'')
       \<and> calls (snd (safe_call_loop always_none half_jitter (- 1) [0..<1025] retry_init)) = Suc 1024"
    by (rule safe_call_loop_overflow[OF none m overflow_minus_one _ _ init]) simp_all
  have d: "\<forall>j. 0 \<le> j \<and> j < 1022 \<longrightarrow> \<not> float_overflow (5 * 2 ^ j)"
    using not_overflow_default by blast
  have 2: "fst (safe_call_loop always_none half_jitter 5 [0..<1023] retry_init)
           = Inl (PyExc ''OverflowError'' ''int too large to convert to float'')
       \<and> calls (snd (safe_call_loop always_none half_jitter 5 [0..<1023] retry_init)) = Suc 1022"
    by (rule safe_call_loop_overflow[OF none d overflow_default _ _ init]) simp_all
  have 3: "fst (safe_call_adk always_empty_string half_jitter 5 5) = Inr (Some [])
     \<and> calls (snd (safe_call_adk always_empty_string half_jitter 5 5)) = 1"
    by (simp add: safe_call_adk_def py_range_def retry_init_def always_empty_string_def
        upt_conv_Cons Let_def)
  from 1 2 3 show ?thesis by (simp add: safe_call_adk_def py_range_def)
qed

text \<open>
  Claim C4, as stated, fails: the test of the source is \<open>result is not None\<close>, so an
  operation that answers with the empty string is returned after one invocation, with no
  delay and no retry.
\<close>
theorem safe_call_adk_empty_string_counterexample:
  "fst (safe_call_adk always_empty_string half_jitter 5 5) = Inr (Some [])
   \<and> calls (snd (safe_call_adk always_empty_string half_jitter 5 5)) = 1
   \<and> slept (snd (safe_call_adk always_empty_string half_jitter 5 5)) = []"
  by (simp add: safe_call_adk_def py_range_def retry_init_def always_empty_string_def upt_conv_Cons Let_def)

text \<open>
  Claim C4, amended. \<open>safe_call_adk\<close> retries exactly on \<open>None\<close>: when the first \<open>k\<close>
  invocations yield \<open>None\<close> (and the delays after them can be computed) and invocation \<open>k\<close>
  yields a string \<open>r\<close> (empty or not) within the \<open>retries\<close> attempts, it returns \<open>r\<close> at once,
  after \<open>k + 1\<close> invocations and \<open>k\<close> delays.
\<close>
theorem safe_call_adk_returns_first_present:
  assumes "\<forall>n<k. operation n = Inr None" and "operation k = Inr (Some r)" and "int k < retries"
    and "\<forall>j<k. \<not> float_overflow (base_delay * 2 ^ j)"
  shows "fst (safe_call_adk operation rnd retries base_delay) = Inr (Some r)
       \<and> calls (snd (safe_call_adk operation rnd retries base_delay)) = Suc k
       \<and> length (slept (snd (safe_call_adk operation rnd retries base_delay))) = k"
  using safe_call_loop_first_present[of 0 k operation base_delay r "nat retries" retry_init rnd] assms
  by (simp add: safe_call_adk_def py_range_def retry_init_def)

theorem safe_call_adk_returns_first_present_witness:
  "third_time_lucky 0 = Inr None \<and> third_time_lucky 1 = Inr None
   \<and> third_time_lucky 2 = Inr (Some ''ok'') \<and> int 2 < 5
   \<and> fst (safe_call_adk third_time_lucky half_jitter 5 5) = Inr (Some ''ok'')
   \<and> calls (snd (safe_call_adk third_time_lucky half_jitter 5 5)) = Suc 2
   \<and> length (slept (snd (safe_call_adk third_time_lucky half_jitter 5 5))) = 2"
proof -
  have c: "\<forall>j<2. \<not> float_overflow (5 * 2 ^ j)" by (simp add: not_overflow_default)
  show ?thesis
    using safe_call_adk_returns_first_present[of 2 third_time_lucky "''ok''" 5 5 half_jitter] c
    by (simp add: third_time_lucky_def)
qed




section \<open>Properties of the phase scheduler\<close>

lemma gather_slots_all:
  assumes "length slots = length aws"
    and "\<forall>j<length aws. slots ! j = None \<or> slots ! j = Some (aws ! j)"
  shows "gather_slots True aws order slots =
     (if \<forall>j<length aws. slots ! j \<noteq> None \<or> j \<in> set order then Some (Inr aws) else None)"
  using assms
proof (induction order arbitrary: slots)
  case Nil
  have all: "list_all (\<lambda>s. s \<noteq> None) slots \<longleftrightarrow> (\<forall>j<length aws. slots ! j \<noteq> None)"
    using Nil.prems(1) by (simp add: list_all_length)
  have "map the slots = aws" if "\<forall>j<length aws. slots ! j \<noteq> None"
  proof (rule nth_equalityI)
    show "length (map the slots) = length aws" using Nil.prems(1) by simp
  next
    fix j assume "j < length (map the slots)"
    then have j: "j < length aws" using Nil.prems(1) by simp
    with that Nil.prems(2) have "slots ! j = Some (aws ! j)" by blast
    then show "map the slots ! j = aws ! j" using j Nil.prems(1) by simp
  qed
  with all show ?case by auto
next
  case (Cons i order)
  show ?case
  proof (cases "i < length aws")
    case False
    then have "(\<forall>j<length aws. slots ! j \<noteq> None \<or> j \<in> set (i # order))
        \<longleftrightarrow> (\<forall>j<length aws. slots ! j \<noteq> None \<or> j \<in> set order)" by auto
    with False Cons.IH[OF Cons.prems] show ?thesis by simp
  next
    case True
    let ?slots = "slots[i := Some (aws ! i)]"
    have len: "length ?slots = length aws" using Cons.prems(1) by simp
    have inv: "\<forall>j<length aws. ?slots ! j = None \<or> ?slots ! j = Some (aws ! j)"
      using Cons.prems True by (auto simp: nth_list_update)
    have cond: "(\<forall>j<length aws. ?slots ! j \<noteq> None \<or> j \<in> set order)
        \<longleftrightarrow> (\<forall>j<length aws. slots ! j \<noteq> None \<or> j \<in> set (i # order))"
      using Cons.prems(1) True by (auto simp: nth_list_update)
    have step: "gather_slots True aws (i # order) slots = gather_slots True aws order ?slots"
      using True by (cases "aws ! i") simp_all
    show ?thesis unfolding step Cons.IH[OF len inv] cond ..
  qed
qed

lemma gather_complete:
  assumes "\<forall>j<length aws. j \<in> set order"
  shows "gather True aws order = Some (Inr aws)"
  unfolding gather_def using gather_slots_all[of "replicate (length aws) None" aws order] assms
  by simp

lemma dict_set_fresh: "k \<notin> set (keys d) \<Longrightarrow> dict_set d k v = d @ [(k, v)]"
  by (induction d) (auto simp: keys_def)

lemma collect_results_distinct:
  assumes "distinct (keys acc @ keys tasks)"
  shows "collect_results acc tasks =
     acc @ map (\<lambda>(k, res). (k, case res of
         Inl exc \<Rightarrow> \<lparr>agent_name = k, status = ''error'', data = PNone,
                     execution_time = 0, error = Some (exc_str exc)\<rparr>
       | Inr r \<Rightarrow> r)) tasks"
  using assms
proof (induction tasks arbitrary: acc)
  case Nil
  then show ?case by simp
next
  case (Cons t tasks)
  obtain k res where t: "t = (k, res)" by (cases t)
  have fresh: "k \<notin> set (keys acc)" using Cons.prems t by (auto simp: keys_def)
  have "distinct (keys (acc @ [(k, case res of
         Inl exc \<Rightarrow> \<lparr>agent_name = k, status = ''error'', data = PNone,
                     execution_time = 0, error = Some (exc_str exc)\<rparr>
       | Inr r \<Rightarrow> r)]) @ keys tasks)"
    using Cons.prems t by (auto simp: keys_def)
  from Cons.IH[OF this] show ?case
    by (simp add: t dict_set_fresh[OF fresh])
qed

lemma run_phase_complete:
  assumes "distinct (keys tasks)" and "\<forall>j<length tasks. j \<in> set order"
  shows "run_phase tasks order =
     Some (Inr (map (\<lambda>(k, res). (k, case res of
         Inl exc \<Rightarrow> \<lparr>agent_name = k, status = ''error'', data = PNone,
                     execution_time = 0, error = Some (exc_str exc)\<rparr>
       | Inr r \<Rightarrow> r)) tasks))"
proof -
  have g: "gather True (map snd tasks) order = Some (Inr (map snd tasks))"
    using gather_complete[of "map snd tasks" order] assms(2) by simp
  have z: "zip (keys tasks) (map snd tasks) = tasks"
    by (simp add: keys_def zip_map_fst_snd)
  have c: "collect_results [] tasks = map (\<lambda>(k, res). (k, case res of
         Inl exc \<Rightarrow> \<lparr>agent_name = k, status = ''error'', data = PNone,
                     execution_time = 0, error = Some (exc_str exc)\<rparr>
       | Inr r \<Rightarrow> r)) tasks"
    using collect_results_distinct[of "[]" tasks] assms(1) by (simp add: keys_def)
  show ?thesis by (simp add: run_phase_def g z c)
qed

text \<open>
  Claim C2. In a phase whose tasks all complete, a task whose coroutine raises \<open>exc\<close> does
  not stop the scheduler: \<open>run_phase\<close> returns the result set, keyed as the tasks were
  registered; the entry of the raising task is the synthesized envelope with status
  \<open>error\<close>, no data, the error \<open>str(exc)\<close> and execution time 0; the entry of every task
  that returned an envelope is that envelope.
\<close>
theorem run_phase_isolates_fault:
  assumes "distinct (keys tasks)" and "\<forall>j<length tasks. j \<in> set order"
    and "(k, Inl exc) \<in> set tasks"
  shows "\<exists>results. run_phase tasks order = Some (Inr results)
       \<and> keys results = keys tasks
       \<and> map_of results k = Some \<lparr>agent_name = k, status = ''error'', data = PNone,
                                      execution_time = 0, error = Some (exc_str exc)\<rparr>
       \<and> (\<forall>k' r. (k', Inr r) \<in> set tasks \<longrightarrow> map_of results k' = Some r)"
proof -
  let ?f = "\<lambda>(k, res). (k, case res of
         Inl exc \<Rightarrow> \<lparr>agent_name = k, status = ''error'', data = PNone,
                     execution_time = 0, error = Some (exc_str exc)\<rparr>
       | Inr r \<Rightarrow> r)"
  have run: "run_phase tasks order = Some (Inr (map ?f tasks))"
    by (rule run_phase_complete[OF assms(1,2)])
  have ks: "keys (map ?f tasks) = keys tasks"
    by (simp add: keys_def case_prod_beta comp_def)
  have d: "distinct (map fst (map ?f tasks))"
    using assms(1) ks by (simp only: keys_def)
  have look: "map_of (map ?f tasks) (fst (?f t)) = Some (snd (?f t))" if "t \<in> set tasks" for t
    using that d by (intro map_of_is_SomeI) auto
  have a: "map_of (map ?f tasks) k = Some \<lparr>agent_name = k, status = ''error'', data = PNone,
                                      execution_time = 0, error = Some (exc_str exc)\<rparr>"
    using look[OF assms(3)] by simp
  have b: "map_of (map ?f tasks) k' = Some r" if "(k', Inr r) \<in> set tasks" for k' r
    using look[OF that] by simp
  from run ks a b show ?thesis by blast
qed

theorem run_phase_isolates_fault_witness:
  "distinct (keys faulty_phase) \<and> (''eda'', Inl (PyExc ''RuntimeError'' ''boom'')) \<in> set faulty_phase
   \<and> (\<exists>results. run_phase faulty_phase [2, 0, 1] = Some (Inr results)
       \<and> keys results = keys faulty_phase
       \<and> map_of results ''eda'' = Some \<lparr>agent_name = ''eda'', status = ''error'', data = PNone,
                                      execution_time = 0, error = Some ''boom''\<rparr>
       \<and> map_of results ''anomaly'' = Some \<lparr>agent_name = ''Anomaly Detection Agent'', status = ''success'',
                           data = PDict [(''total_anomalies'', PInt 0)], execution_time = 2, error = None\<rparr>)"
proof -
  have d: "distinct (keys faulty_phase)" by (simp add: faulty_phase_def keys_def)
  have o: "\<forall>j<length faulty_phase. j \<in> set [2, 0, 1]"
    by (auto simp: faulty_phase_def less_Suc_eq)
  have m: "(''eda'', Inl (PyExc ''RuntimeError'' ''boom'')) \<in> set faulty_phase"
    by (simp add: faulty_phase_def)
  have n: "(''anomaly'', Inr \<lparr>agent_name = ''Anomaly Detection Agent'', status = ''success'',
                           data = PDict [(''total_anomalies'', PInt 0)], execution_time = 2, error = None\<rparr>) \<in> set faulty_phase"
    by (simp add: faulty_phase_def)
  from run_phase_isolates_fault[OF d o m] n d m show ?thesis by fastforce
qed

text \<open>
  Claim C6. Two runs of a phase in which the tasks complete in different orders
  \<open>order\<close> and \<open>order'\<close> produce the same result set, and its keys are the task names in
  registration order.
\<close>
theorem run_phase_order_deterministic:
  assumes "distinct (keys tasks)"
    and "\<forall>j<length tasks. j \<in> set order" and "\<forall>j<length tasks. j \<in> set order'"
  shows "\<exists>results. run_phase tasks order = Some (Inr results)
       \<and> run_phase tasks order' = Some (Inr results)
       \<and> keys results = keys tasks"
proof -
  let ?f = "\<lambda>(k, res). (k, case res of
         Inl exc \<Rightarrow> \<lparr>agent_name = k, status = ''error'', data = PNone,
                     execution_time = 0, error = Some (exc_str exc)\<rparr>
       | Inr r \<Rightarrow> r)"
  have "keys (map ?f tasks) = keys tasks" by (simp add: keys_def case_prod_beta comp_def)
  with run_phase_complete[OF assms(1,2)] run_phase_complete[OF assms(1,3)]
  show ?thesis by blast
qed

theorem run_phase_order_deterministic_witness:
  "distinct (keys faulty_phase)
   \<and> (\<exists>results. run_phase faulty_phase [2, 0, 1] = Some (Inr results)
       \<and> run_phase faulty_phase [0, 1, 2] = Some (Inr results)
       \<and> keys results = [''cleaning'', ''eda'', ''anomaly''])"
proof -
  have d: "distinct (keys faulty_phase)" by (simp add: faulty_phase_def keys_def)
  have o: "\<forall>j<length faulty_phase. j \<in> set [2, 0, 1]"
    by (auto simp: faulty_phase_def less_Suc_eq)
  have o': "\<forall>j<length faulty_phase. j \<in> set [0, 1, 2]"
    by (auto simp: faulty_phase_def less_Suc_eq)
  have k: "keys faulty_phase = [''cleaning'', ''eda'', ''anomaly'']"
    by (simp add: faulty_phase_def keys_def)
  from run_phase_order_deterministic[OF d o o'] d k show ?thesis by simp
qed

section \<open>Properties of the agents\<close>

lemma DataCleaningAgent_execute_result:
  "\<exists>r h'. DataCleaningAgent_execute ext client start now h df = (Inr r, h')
     \<and> r = (case fst (DataCleaningAgent_body ext client h df) of
              Inl e \<Rightarrow> \<lparr>agent_name = ''Data Cleaning Agent'', status = ''error'', data = PNone,
                         execution_time = now - start, error = Some (exc_str e)\<rparr>
            | Inr payload \<Rightarrow> \<lparr>agent_name = ''Data Cleaning Agent'', status = ''success'',
                         data = payload, execution_time = now - start, error = None\<rparr>)"
  by (simp add: DataCleaningAgent_execute_def split: prod.splits sum.splits)

lemma EDAAgent_execute_result:
  "\<exists>r. EDAAgent_execute ext client start now h df = (Inr r, h)
     \<and> r = (case EDAAgent_body ext client (h ! df) of
              Inl e \<Rightarrow> \<lparr>agent_name = ''EDA Agent'', status = ''error'', data = PNone,
                         execution_time = now - start, error = Some (exc_str e)\<rparr>
            | Inr payload \<Rightarrow> \<lparr>agent_name = ''EDA Agent'', status = ''success'',
                         data = payload, execution_time = now - start, error = None\<rparr>)"
  by (simp add: EDAAgent_execute_def split: sum.splits)

lemma AnomalyAgent_execute_result:
  "\<exists>r. AnomalyAgent_execute ext client start now h df = (Inr r, h)
     \<and> r = (case AnomalyAgent_body ext client (h ! df) of
              Inl e \<Rightarrow> \<lparr>agent_name = ''Anomaly Detection Agent'', status = ''error'', data = PNone,
                         execution_time = now - start, error = Some (exc_str e)\<rparr>
            | Inr payload \<Rightarrow> \<lparr>agent_name = ''Anomaly Detection Agent'', status = ''success'',
                         data = payload, execution_time = now - start, error = None\<rparr>)"
  by (simp add: AnomalyAgent_execute_def split: sum.splits)

lemma MLAgent_execute_result:
  "\<exists>r h'. MLAgent_execute ext client start now h df target = (Inr r, h')
     \<and> r = (case fst (MLAgent_body ext client start now h df target) of
              Inl e \<Rightarrow> \<lparr>agent_name = ''ML Agent'', status = ''error'', data = PNone,
                         execution_time = now - start, error = Some (exc_str e)\<rparr>
            | Inr result \<Rightarrow> result)"
  by (simp add: MLAgent_execute_def split: prod.splits sum.splits)

lemma BusinessInsightsAgent_execute_result:
  "\<exists>r. BusinessInsightsAgent_execute ext client start now all_results = Inr r
     \<and> r = (case BusinessInsightsAgent_body ext client all_results of
              Inl e \<Rightarrow> \<lparr>agent_name = ''Business Insights Agent'', status = ''error'', data = PNone,
                         execution_time = now - start, error = Some (exc_str e)\<rparr>
            | Inr payload \<Rightarrow> \<lparr>agent_name = ''Business Insights Agent'', status = ''success'',
                         data = payload, execution_time = now - start, error = None\<rparr>)"
  by (simp add: BusinessInsightsAgent_execute_def split: sum.splits)

lemma ReportAgent_execute_result:
  "\<exists>r. ReportAgent_execute ext start now all_results business_insights = Inr r
     \<and> r = (case generate_pdf_report ext all_results business_insights of
              Inl e \<Rightarrow> \<lparr>agent_name = ''Report Generation Agent'', status = ''error'', data = PNone,
                         execution_time = now - start, error = Some (exc_str e)\<rparr>
            | Inr pdf_path \<Rightarrow> \<lparr>agent_name = ''Report Generation Agent'', status = ''success'',
                         data = PDict [(''pdf_path'', PStr pdf_path)],
                         execution_time = now - start, error = None\<rparr>)"
  by (simp add: ReportAgent_execute_def split: sum.splits)

text \<open>
  Claim C8, amended. For each of the six agents and every input, \<open>execute\<close> returns an
  envelope (\<open>Inr\<close>), never an exception; when a fault \<open>e\<close> escapes the body of its outer
  \<open>try\<close>, the envelope has status \<open>error\<close>, no data, the error \<open>str(e)\<close> and as execution
  time the clock reading taken in the handler minus the one taken on entry. (A fault
  raised inside an inner \<open>try\<close> of the body is caught there and never reaches the outer
  handler.)
\<close>
theorem execute_contains_faults:
  "(\<exists>r h'. DataCleaningAgent_execute ext client start now h df = (Inr r, h')
      \<and> (\<forall>e. fst (DataCleaningAgent_body ext client h df) = Inl e \<longrightarrow>
            r = \<lparr>agent_name = ''Data Cleaning Agent'', status = ''error'', data = PNone,
                  execution_time = now - start, error = Some (exc_str e)\<rparr>))
   \<and> (\<exists>r h'. EDAAgent_execute ext client start now h df = (Inr r, h')
      \<and> (\<forall>e. EDAAgent_body ext client (h ! df) = Inl e \<longrightarrow>
            r = \<lparr>agent_name = ''EDA Agent'', status = ''error'', data = PNone,
                  execution_time = now - start, error = Some (exc_str e)\<rparr>))
   \<and> (\<exists>r h'. AnomalyAgent_execute ext client start now h df = (Inr r, h')
      \<and> (\<forall>e. AnomalyAgent_body ext client (h ! df) = Inl e \<longrightarrow>
            r = \<lparr>agent_name = ''Anomaly Detection Agent'', status = ''error'', data = PNone,
                  execution_time = now - start, error = Some (exc_str e)\<rparr>))
   \<and> (\<exists>r h'. MLAgent_execute ext client start now h df target = (Inr r, h')
      \<and> (\<forall>e. fst (MLAgent_body ext client start now h df target) = Inl e \<longrightarrow>
            r = \<lparr>agent_name = ''ML Agent'', status = ''error'', data = PNone,
                  execution_time = now - start, error = Some (exc_str e)\<rparr>))
   \<and> (\<exists>r. BusinessInsightsAgent_execute ext client start now all_results = Inr r
      \<and> (\<forall>e. BusinessInsightsAgent_body ext client all_results = Inl e \<longrightarrow>
            r = \<lparr>agent_name = ''Business Insights Agent'', status = ''error'', data = PNone,
                  execution_time = now - start, error = Some (exc_str e)\<rparr>))
   \<and> (\<exists>r. ReportAgent_execute ext start now all_results business_insights = Inr r
      \<and> (\<forall>e. generate_pdf_report ext all_results business_insights = Inl e \<longrightarrow>
            r = \<lparr>agent_name = ''Report Generation Agent'', status = ''error'', data = PNone,
                  execution_time = now - start, error = Some (exc_str e)\<rparr>))"
proof (intro conjI)
  show "\<exists>r h'. DataCleaningAgent_execute ext client start now h df = (Inr r, h')
      \<and> (\<forall>e. fst (DataCleaningAgent_body ext client h df) = Inl e \<longrightarrow>
            r = \<lparr>agent_name = ''Data Cleaning Agent'', status = ''error'', data = PNone,
                  execution_time = now - start, error = Some (exc_str e)\<rparr>)"
    using DataCleaningAgent_execute_result[of ext client start now h df] by auto
  show "\<exists>r h'. EDAAgent_execute ext client start now h df = (Inr r, h')
      \<and> (\<forall>e. EDAAgent_body ext client (h ! df) = Inl e \<longrightarrow>
            r = \<lparr>agent_name = ''EDA Agent'', status = ''error'', data = PNone,
                  execution_time = now - start, error = Some (exc_str e)\<rparr>)"
    using EDAAgent_execute_result[of ext client start now h df] by auto
  show "\<exists>r h'. AnomalyAgent_execute ext client start now h df = (Inr r, h')
      \<and> (\<forall>e. AnomalyAgent_body ext client (h ! df) = Inl e \<longrightarrow>
            r = \<lparr>agent_name = ''Anomaly Detection Agent'', status = ''error'', data = PNone,
                  execution_time = now - start, error = Some (exc_str e)\<rparr>)"
    using AnomalyAgent_execute_result[of ext client start now h df] by auto
  show "\<exists>r h'. MLAgent_execute ext client start now h df target = (Inr r, h')
      \<and> (\<forall>e. fst (MLAgent_body ext client start now h df target) = Inl e \<longrightarrow>
            r = \<lparr>agent_name = ''ML Agent'', status = ''error'', data = PNone,
                  execution_time = now - start, error = Some (exc_str e)\<rparr>)"
    using MLAgent_execute_result[of ext client start now h df target] by auto
  show "\<exists>r. BusinessInsightsAgent_execute ext client start now all_results = Inr r
      \<and> (\<forall>e. BusinessInsightsAgent_body ext client all_results = Inl e \<longrightarrow>
            r = \<lparr>agent_name = ''Business Insights Agent'', status = ''error'', data = PNone,
                  execution_time = now - start, error = Some (exc_str e)\<rparr>)"
    using BusinessInsightsAgent_execute_result[of ext client start now all_results] by auto
  show "\<exists>r. ReportAgent_execute ext start now all_results business_insights = Inr r
      \<and> (\<forall>e. generate_pdf_report ext all_results business_insights = Inl e \<longrightarrow>
            r = \<lparr>agent_name = ''Report Generation Agent'', status = ''error'', data = PNone,
                  execution_time = now - start, error = Some (exc_str e)\<rparr>)"
    using ReportAgent_execute_result[of ext start now all_results business_insights] by auto
qed


lemma faulty_cleaning_body: "fst (DataCleaningAgent_body faulty_ext None [toy_df] 0) = Inl (PyExc ''TypeError'' ''unhashable type'')"
  by (simp add: DataCleaningAgent_body_def faulty_ext_def plain_ext_def)

lemma faulty_eda_body: "EDAAgent_body faulty_ext None ([toy_df] ! 0) = Inl (PyExc ''ValueError'' ''nothing to describe'')"
  by (simp add: EDAAgent_body_def faulty_ext_def plain_ext_def)

lemma faulty_anomaly_body: "AnomalyAgent_body faulty_ext None ([toy_df] ! 0) = Inl (PyExc ''TypeError'' ''no quantile'')"
  by (simp add: AnomalyAgent_body_def faulty_ext_def plain_ext_def toy_df_def select_dtypes_def
      np_number_def columns_def)

lemma faulty_ml_body: "fst (MLAgent_body faulty_ext None 0 1 [toy_df] 0 (Some ''price'')) = Inl (PyExc ''MemoryError'' [])"
  by (simp add: MLAgent_body_def faulty_ext_def plain_ext_def toy_df_def select_dtypes_def
      np_number_def columns_def alloc_def drop_column_def Let_def)

lemma faulty_insights_body: "BusinessInsightsAgent_body faulty_ext None odd_results
    = Inl (PyExc ''TypeError'' (quoted ''>'' @ '' not supported between instances of ''
             @ quoted ''str'' @ '' and '' @ quoted ''int''))"
  by (simp add: BusinessInsightsAgent_body_def odd_results_def succeeded_def truthy_def
      py_get_default_def py_gt0_def type_name_def Let_def)

lemma faulty_report_body: "generate_pdf_report faulty_ext odd_results no_insights = Inl (PyExc ''OSError'' ''disk full'')"
  by (simp add: generate_pdf_report_def faulty_ext_def plain_ext_def)

theorem execute_contains_faults_witness:
  "fst (DataCleaningAgent_execute faulty_ext None 0 1 [toy_df] 0) =
     Inr \<lparr>agent_name = ''Data Cleaning Agent'', status = ''error'', data = PNone,
           execution_time = 1, error = Some ''unhashable type''\<rparr>
   \<and> fst (EDAAgent_execute faulty_ext None 0 1 [toy_df] 0) =
     Inr \<lparr>agent_name = ''EDA Agent'', status = ''error'', data = PNone,
           execution_time = 1, error = Some ''nothing to describe''\<rparr>
   \<and> fst (AnomalyAgent_execute faulty_ext None 0 1 [toy_df] 0) =
     Inr \<lparr>agent_name = ''Anomaly Detection Agent'', status = ''error'', data = PNone,
           execution_time = 1, error = Some ''no quantile''\<rparr>
   \<and> fst (MLAgent_execute faulty_ext None 0 1 [toy_df] 0 (Some ''price'')) =
     Inr \<lparr>agent_name = ''ML Agent'', status = ''error'', data = PNone,
           execution_time = 1, error = Some []\<rparr>
   \<and> BusinessInsightsAgent_execute faulty_ext None 0 1 odd_results =
     Inr \<lparr>agent_name = ''Business Insights Agent'', status = ''error'', data = PNone,
           execution_time = 1,
           error = Some (quoted ''>'' @ '' not supported between instances of ''
                         @ quoted ''str'' @ '' and '' @ quoted ''int'')\<rparr>
   \<and> ReportAgent_execute faulty_ext 0 1 odd_results no_insights =
     Inr \<lparr>agent_name = ''Report Generation Agent'', status = ''error'', data = PNone,
           execution_time = 1, error = Some ''disk full''\<rparr>"
  using execute_contains_faults[of faulty_ext None 0 1 "[toy_df]" 0 "Some ''price''"
          odd_results no_insights] faulty_cleaning_body faulty_eda_body faulty_anomaly_body faulty_ml_body faulty_insights_body faulty_report_body
  by auto







text \<open>
  Claim C8, as stated, fails: not every fault raised inside \<open>execute\<close> becomes a failure
  envelope. With a client configured, the anomaly agent's call of the unbound name
  \<open>safe_call_adk\<close> raises \<open>NameError\<close> inside \<open>execute\<close>; the inner handler swallows it and
  \<open>execute\<close> returns a success envelope with no error.
\<close>
theorem swallowed_fault_counterexample:
  "lookup_global anomaly_module_names ''safe_call_adk''
     = Inl (PyExc ''NameError'' (''name '' @ quoted ''safe_call_adk'' @ '' is not defined''))
   \<and> fst (AnomalyAgent_execute plain_ext (Some (Client ''key'')) 0 1 [toy_df] 0) =
     Inr \<lparr>agent_name = ''Anomaly Detection Agent'', status = ''success'',
           data = PDict
             [(''outliers_by_column'',
                 PDict [(''price'',
                    PDict [(''count'', PInt 2), (''percentage'', PFloat (200 / 3)),
                           (''lower_bound'', PFloat 2), (''upper_bound'', PFloat 2),
                           (''values'', PList [PFloat 1, PFloat 3])])]),
              (''anomaly_summary'', PList [PStr ''price: ? outliers (?%)'']),
              (''total_anomalies'', PInt 2),
              (''adk_insights'', PNone)],
           execution_time = 1, error = None\<rparr>"
  by (simp add: AnomalyAgent_execute_def AnomalyAgent_body_def plain_ext_def toy_df_def
      select_dtypes_def np_number_def columns_def outlier_cells_def shape_def Let_def
      cell_val_def lookup_global_def anomaly_module_names_def quoted_def)

section \<open>The shape of the envelopes and the end of the pipeline\<close>

lemma truthy_PDict: "truthy (PDict (x # xs))"
  by (simp add: truthy_def)

lemma DataCleaningAgent_body_truthy:
  "fst (DataCleaningAgent_body ext client h df) = Inr payload \<Longrightarrow> truthy payload"
  by (auto simp: DataCleaningAgent_body_def Let_def truthy_PDict split: sum.splits prod.splits if_splits)

lemma EDAAgent_body_truthy: "EDAAgent_body ext client f = Inr payload \<Longrightarrow> truthy payload"
  by (auto simp: EDAAgent_body_def Let_def truthy_PDict split: sum.splits prod.splits)

lemma AnomalyAgent_body_truthy: "AnomalyAgent_body ext client f = Inr payload \<Longrightarrow> truthy payload"
  by (auto simp: AnomalyAgent_body_def Let_def truthy_PDict split: sum.splits prod.splits)

lemma MLAgent_body_ok:
  "fst (MLAgent_body ext client start now h df target) = Inr r \<Longrightarrow> envelope_ok r"
  by (auto simp: MLAgent_body_def Let_def truthy_PDict envelope_ok_def split: sum.splits prod.splits if_splits option.splits)

lemma BusinessInsightsAgent_body_truthy:
  "BusinessInsightsAgent_body ext client all_results = Inr payload \<Longrightarrow> truthy payload"
  unfolding BusinessInsightsAgent_body_def Let_def
  by (auto simp: truthy_PDict split: sum.splits prod.splits)

lemma DataCleaningAgent_execute_ok:
  "\<exists>r. fst (DataCleaningAgent_execute ext client start now h df) = Inr r \<and> envelope_ok r"
  using DataCleaningAgent_execute_result[of ext client start now h df]
    DataCleaningAgent_body_truthy[of ext client h df]
  by (auto simp: envelope_ok_def split: sum.splits)

lemma EDAAgent_execute_ok:
  "\<exists>r. fst (EDAAgent_execute ext client start now h df) = Inr r \<and> envelope_ok r"
  using EDAAgent_execute_result[of ext client start now h df]
    EDAAgent_body_truthy[of ext client "h ! df"]
  by (auto simp: envelope_ok_def split: sum.splits)

lemma AnomalyAgent_execute_ok:
  "\<exists>r. fst (AnomalyAgent_execute ext client start now h df) = Inr r \<and> envelope_ok r"
  using AnomalyAgent_execute_result[of ext client start now h df]
    AnomalyAgent_body_truthy[of ext client "h ! df"]
  by (auto simp: envelope_ok_def split: sum.splits)

lemma MLAgent_execute_ok:
  "\<exists>r. fst (MLAgent_execute ext client start now h df target) = Inr r \<and> envelope_ok r"
  using MLAgent_execute_result[of ext client start now h df target]
    MLAgent_body_ok[of ext client start now h df target]
  by (auto simp: envelope_ok_def split: sum.splits)

lemma BusinessInsightsAgent_execute_ok:
  "\<exists>r. BusinessInsightsAgent_execute ext client start now all_results = Inr r \<and> envelope_ok r"
  using BusinessInsightsAgent_execute_result[of ext client start now all_results]
    BusinessInsightsAgent_body_truthy[of ext client all_results]
  by (auto simp: envelope_ok_def split: sum.splits)

lemma ReportAgent_execute_ok:
  "\<exists>r. ReportAgent_execute ext start now all_results business_insights = Inr r \<and> envelope_ok r"
  using ReportAgent_execute_result[of ext start now all_results business_insights]
  by (auto simp: envelope_ok_def truthy_PDict split: sum.splits)

lemma dict_set_all:
  assumes "\<forall>(k, r) \<in> set d. P r" and "P v"
  shows "\<forall>(k, r) \<in> set (dict_set d key v). P r"
  using assms by (induction d) (auto split: if_splits)

lemma gather_True_eq:
  "gather True aws order =
     (if \<forall>j<length aws. j \<in> set order then Some (Inr aws) else None)"
  unfolding gather_def using gather_slots_all[of "replicate (length aws) None" aws order]
  by simp

lemma gather_returns_all:
  "gather True aws order = Some (Inr completed) \<Longrightarrow> completed = aws"
  by (simp add: gather_True_eq split: if_splits)

lemma collect_results_ok:
  assumes "\<forall>(k, r) \<in> set acc. envelope_ok r"
    and "\<forall>(k, res) \<in> set tasks. \<forall>r. res = Inr r \<longrightarrow> envelope_ok r"
  shows "\<forall>(k, r) \<in> set (collect_results acc tasks). envelope_ok r"
  using assms
proof (induction tasks arbitrary: acc)
  case Nil
  then show ?case by simp
next
  case (Cons t tasks)
  obtain k res where t: "t = (k, res)" by (cases t)
  define v where "v = (case res of
       Inl exc \<Rightarrow> \<lparr>agent_name = k, status = ''error'', data = PNone,
                   execution_time = 0, error = Some (exc_str exc)\<rparr>
     | Inr r \<Rightarrow> r)"
  have v: "envelope_ok v"
  proof (cases res)
    case (Inl exc)
    then show ?thesis by (simp add: v_def envelope_ok_def)
  next
    case (Inr r)
    with Cons.prems(2) t show ?thesis by (simp add: v_def)
  qed
  have 1: "\<forall>(k, r) \<in> set (dict_set acc k v). envelope_ok r"
    by (rule dict_set_all[OF Cons.prems(1) v])
  have 2: "\<forall>(k, res) \<in> set tasks. \<forall>r. res = Inr r \<longrightarrow> envelope_ok r"
    using Cons.prems(2) by simp
  have "collect_results acc (t # tasks) = collect_results (dict_set acc k v) tasks"
    by (simp add: t v_def)
  with Cons.IH[OF 1 2] show ?case by simp
qed

lemma run_phase_ok:
  assumes "run_phase tasks order = Some (Inr results)"
    and "\<forall>(k, res) \<in> set tasks. \<forall>r. res = Inr r \<longrightarrow> envelope_ok r"
  shows "\<forall>(k, r) \<in> set results. envelope_ok r"
proof -
  have z: "zip (keys tasks) (map snd tasks) = tasks"
    by (simp add: keys_def zip_map_fst_snd)
  have "run_phase tasks order =
      (if \<forall>j<length tasks. j \<in> set order then Some (Inr (collect_results [] tasks)) else None)"
    by (simp add: run_phase_def gather_True_eq z)
  with assms(1) have "results = collect_results [] tasks"
    by (simp split: if_splits)
  moreover have "\<forall>(k, r) \<in> set (collect_results [] tasks). envelope_ok r"
    by (rule collect_results_ok[OF _ assms(2)]) simp
  ultimately show ?thesis by simp
qed

lemma repo_phase_ok:
  "\<forall>(k, res) \<in> set [(''cleaning'', cleaning_agent (repo_agents ext client clock) df),
        (''eda'', eda_agent (repo_agents ext client clock) df),
        (''anomaly'', anomaly_agent (repo_agents ext client clock) df),
        (''ml'', ml_agent (repo_agents ext client clock) df target)].
     \<forall>r. res = Inr r \<longrightarrow> envelope_ok r"
proof -
  have a: "\<forall>r. cleaning_agent (repo_agents ext client clock) df = Inr r \<longrightarrow> envelope_ok r"
    using DataCleaningAgent_execute_ok[of ext client "fst (clock 0)" "snd (clock 0)" "[df]" 0]
    by (auto simp: repo_agents_def)
  have b: "\<forall>r. eda_agent (repo_agents ext client clock) df = Inr r \<longrightarrow> envelope_ok r"
    using EDAAgent_execute_ok[of ext client "fst (clock 1)" "snd (clock 1)" "[df]" 0]
    by (auto simp: repo_agents_def)
  have c: "\<forall>r. anomaly_agent (repo_agents ext client clock) df = Inr r \<longrightarrow> envelope_ok r"
    using AnomalyAgent_execute_ok[of ext client "fst (clock 2)" "snd (clock 2)" "[df]" 0]
    by (auto simp: repo_agents_def)
  have d: "\<forall>r. ml_agent (repo_agents ext client clock) df target = Inr r \<longrightarrow> envelope_ok r"
    using MLAgent_execute_ok[of ext client "fst (clock 3)" "snd (clock 3)" "[df]" 0 target]
    by (auto simp: repo_agents_def)
  from a b c d show ?thesis by simp
qed

lemma run_pipeline_stages:
  assumes "run_pipeline ag loaded target order = Some (Inr res)"
  shows "\<exists>df results ins rep. loaded = Inr df
     \<and> run_phase [(''cleaning'', cleaning_agent ag df), (''eda'', eda_agent ag df),
                    (''anomaly'', anomaly_agent ag df), (''ml'', ml_agent ag df target)] order
         = Some (Inr results)
     \<and> insights_agent ag results = Inr ins
     \<and> report_agent ag results ins = Inr rep
     \<and> res = \<lparr>agent_results = results, insights = ins, report = rep\<rparr>"
proof (cases loaded)
  case (Inl e)
  with assms show ?thesis by (simp add: run_pipeline_def)
next
  case (Inr df)
  let ?tasks = "[(''cleaning'', cleaning_agent ag df), (''eda'', eda_agent ag df),
                    (''anomaly'', anomaly_agent ag df), (''ml'', ml_agent ag df target)]"
  from assms Inr obtain results where ph: "run_phase ?tasks order = Some (Inr results)"
    by (cases "run_phase ?tasks order") (auto simp: run_pipeline_def split: sum.splits)
  from assms Inr ph obtain ins where i: "insights_agent ag results = Inr ins"
    by (cases "insights_agent ag results") (auto simp: run_pipeline_def)
  from assms Inr ph i obtain rep where r: "report_agent ag results ins = Inr rep"
    by (cases "report_agent ag results ins") (auto simp: run_pipeline_def)
  from assms Inr ph i r have "res = \<lparr>agent_results = results, insights = ins, report = rep\<rparr>"
    by (cases "py_get (data rep) ''pdf_path''") (auto simp: run_pipeline_def)
  with Inr ph i r show ?thesis by blast
qed

lemma run_pipeline_ok:
  assumes "run_pipeline (repo_agents ext client clock) loaded target order = Some (Inr res)"
  shows "(\<forall>(k, r) \<in> set (agent_results res). envelope_ok r)
       \<and> envelope_ok (insights res) \<and> envelope_ok (report res)"
proof -
  from run_pipeline_stages[OF assms] obtain df results ins rep where
    ph: "run_phase [(''cleaning'', cleaning_agent (repo_agents ext client clock) df),
        (''eda'', eda_agent (repo_agents ext client clock) df),
        (''anomaly'', anomaly_agent (repo_agents ext client clock) df),
        (''ml'', ml_agent (repo_agents ext client clock) df target)] order = Some (Inr results)"
    and i: "insights_agent (repo_agents ext client clock) results = Inr ins"
    and r: "report_agent (repo_agents ext client clock) results ins = Inr rep"
    and res: "res = \<lparr>agent_results = results, insights = ins, report = rep\<rparr>"
    by blast
  have a: "\<forall>(k, r) \<in> set results. envelope_ok r"
    by (rule run_phase_ok[OF ph repo_phase_ok])
  have b: "envelope_ok ins"
    using i BusinessInsightsAgent_execute_ok[of ext client "fst (clock 4)" "snd (clock 4)" results]
    by (auto simp: repo_agents_def)
  have c: "envelope_ok rep"
    using r ReportAgent_execute_ok[of ext "fst (clock 5)" "snd (clock 5)" results ins]
    by (auto simp: repo_agents_def)
  from a b c res show ?thesis by simp
qed

lemma run_phase_repo:
  assumes "\<forall>j<4. j \<in> set order"
  shows "\<exists>results. run_phase [(''cleaning'', cleaning_agent ag df), (''eda'', eda_agent ag df),
                    (''anomaly'', anomaly_agent ag df), (''ml'', ml_agent ag df target)] order
         = Some (Inr results) \<and> keys results = [''cleaning'', ''eda'', ''anomaly'', ''ml'']"
proof -
  let ?tasks = "[(''cleaning'', cleaning_agent ag df), (''eda'', eda_agent ag df),
                    (''anomaly'', anomaly_agent ag df), (''ml'', ml_agent ag df target)]"
  have d: "distinct (keys ?tasks)" by (simp add: keys_def)
  have o: "\<forall>j<length ?tasks. j \<in> set order" using assms by simp
  show ?thesis
    unfolding run_phase_complete[OF d o] by (simp add: keys_def)
qed

lemma run_pipeline_repo:
  assumes "\<forall>j<4. j \<in> set order"
  shows "\<exists>results ins.
     keys results = [''cleaning'', ''eda'', ''anomaly'', ''ml'']
     \<and> run_pipeline (repo_agents ext client clock) (Inr df) target order =
       (case generate_pdf_report ext results ins of
          Inl e \<Rightarrow> Some (Inl (attribute_error ''NoneType'' ''get''))
        | Inr pdf_path \<Rightarrow>
            Some (Inr \<lparr>agent_results = results, insights = ins,
                       report = \<lparr>agent_name = ''Report Generation Agent'', status = ''success'',
                                 data = PDict [(''pdf_path'', PStr pdf_path)],
                                 execution_time = snd (clock 5) - fst (clock 5), error = None\<rparr>\<rparr>))"
proof -
  let ?ag = "repo_agents ext client clock"
  from run_phase_repo[OF assms, of ?ag df target] obtain results where
    ph: "run_phase [(''cleaning'', cleaning_agent ?ag df), (''eda'', eda_agent ?ag df),
                    (''anomaly'', anomaly_agent ?ag df), (''ml'', ml_agent ?ag df target)] order
         = Some (Inr results)"
    and k: "keys results = [''cleaning'', ''eda'', ''anomaly'', ''ml'']"
    by blast
  obtain ins where i: "insights_agent ?ag results = Inr ins"
    using BusinessInsightsAgent_execute_result[of ext client "fst (clock 4)" "snd (clock 4)" results]
    by (auto simp: repo_agents_def)
  have r: "report_agent ?ag results ins = ReportAgent_execute ext (fst (clock 5)) (snd (clock 5)) results ins"
    by (simp add: repo_agents_def)
  have "run_pipeline ?ag (Inr df) target order =
       (case generate_pdf_report ext results ins of
          Inl e \<Rightarrow> Some (Inl (attribute_error ''NoneType'' ''get''))
        | Inr pdf_path \<Rightarrow>
            Some (Inr \<lparr>agent_results = results, insights = ins,
                       report = \<lparr>agent_name = ''Report Generation Agent'', status = ''success'',
                                 data = PDict [(''pdf_path'', PStr pdf_path)],
                                 execution_time = snd (clock 5) - fst (clock 5), error = None\<rparr>\<rparr>))"
    by (cases "generate_pdf_report ext results ins")
       (simp_all add: run_pipeline_def ph i r ReportAgent_execute_def py_get_def)
  with k show ?thesis by blast
qed

text \<open>
  Claim C1 at a failing input. The report task fails (reportlab rejects a paragraph),
  \<open>ReportAgent.execute\<close> returns its failure envelope, whose data is \<open>None\<close>, and
  \<open>run_pipeline\<close> then evaluates \<open>report.data.get('pdf_path')\<close> for its last \<open>print\<close>: it
  raises \<open>AttributeError\<close> instead of returning the result set.
\<close>
theorem run_pipeline_report_failure_raises:
  "run_pipeline (repo_agents bad_markup_ext (Some (Client ''key'')) unit_clock)
      (Inr toy_df) None [0, 1, 2, 3]
     = Some (Inl (attribute_error ''NoneType'' ''get''))"
proof -
  have o: "\<forall>j<4. j \<in> set [0, 1, 2, 3::nat]" by (auto simp: less_Suc_eq numeral_eq_Suc)
  have g: "generate_pdf_report bad_markup_ext results ins
      = Inl (PyExc ''ValueError'' ''paraparser: syntax error'')" for results ins
    by (simp add: generate_pdf_report_def bad_markup_ext_def plain_ext_def)
  from run_pipeline_repo[OF o, of bad_markup_ext "Some (Client ''key'')" unit_clock toy_df None]
  show ?thesis by (auto simp: g)
qed

text \<open>
  Claim C7, as stated, fails: the error of a failure envelope is \<open>str(e)\<close>, and an
  exception raised without a message gives a failure envelope whose error text is
  empty.
\<close>
theorem empty_error_counterexample:
  "ReportAgent_execute silent_ext 0 1 [] no_insights =
     Inr \<lparr>agent_name = ''Report Generation Agent'', status = ''error'', data = PNone,
           execution_time = 1, error = Some []\<rparr>"
  by (simp add: ReportAgent_execute_def generate_pdf_report_def silent_ext_def plain_ext_def)

text \<open>
  Claim C7, amended. Every envelope an agent's \<open>execute\<close> returns has status \<open>success\<close>
  with a non-empty payload and no error, or status \<open>error\<close> with no payload and an error
  text that is present (possibly empty). The scheduler keeps this shape: when the
  envelopes the tasks return have it, every entry of the phase result set has it, the
  synthesized ones included; and so has every envelope of a result set that
  \<open>run_pipeline\<close> returns for the agents of the repository.
\<close>
theorem every_envelope_ok:
  "(\<exists>r. fst (DataCleaningAgent_execute ext client start now h df) = Inr r \<and> envelope_ok r)
   \<and> (\<exists>r. fst (EDAAgent_execute ext client start now h df) = Inr r \<and> envelope_ok r)
   \<and> (\<exists>r. fst (AnomalyAgent_execute ext client start now h df) = Inr r \<and> envelope_ok r)
   \<and> (\<exists>r. fst (MLAgent_execute ext client start now h df target) = Inr r \<and> envelope_ok r)
   \<and> (\<exists>r. BusinessInsightsAgent_execute ext client start now all_results = Inr r \<and> envelope_ok r)
   \<and> (\<exists>r. ReportAgent_execute ext start now all_results business_insights = Inr r
          \<and> envelope_ok r)
   \<and> (\<forall>results. run_phase tasks order = Some (Inr results) \<longrightarrow>
          (\<forall>(k, res) \<in> set tasks. \<forall>r. res = Inr r \<longrightarrow> envelope_ok r) \<longrightarrow>
          (\<forall>(k, r) \<in> set results. envelope_ok r))
   \<and> (\<forall>res. run_pipeline (repo_agents ext client clock) loaded target order = Some (Inr res) \<longrightarrow>
          (\<forall>(k, r) \<in> set (agent_results res). envelope_ok r)
          \<and> envelope_ok (insights res) \<and> envelope_ok (report res))"
  using DataCleaningAgent_execute_ok[of ext client start now h df]
    EDAAgent_execute_ok[of ext client start now h df]
    AnomalyAgent_execute_ok[of ext client start now h df]
    MLAgent_execute_ok[of ext client start now h df target]
    BusinessInsightsAgent_execute_ok[of ext client start now all_results]
    ReportAgent_execute_ok[of ext start now all_results business_insights]
    run_phase_ok[of tasks order]
    run_pipeline_ok[of ext client clock loaded target order]
  by blast

theorem every_envelope_ok_witness:
  "(\<exists>r. fst (DataCleaningAgent_execute plain_ext None 0 1 [toy_df] 0) = Inr r \<and> envelope_ok r)
   \<and> (\<exists>results. run_phase faulty_phase [2, 0, 1, 3] = Some (Inr results)
         \<and> (\<forall>(k, r) \<in> set results. envelope_ok r))
   \<and> (\<exists>res. run_pipeline (repo_agents plain_ext None unit_clock) (Inr toy_df) None [2, 0, 1, 3]
               = Some (Inr res)
         \<and> (\<forall>(k, r) \<in> set (agent_results res). envelope_ok r)
         \<and> envelope_ok (insights res) \<and> envelope_ok (report res))"
proof -
  note inst = every_envelope_ok[where ext = plain_ext and client = None and start = 0 and now = 1
      and h = "[toy_df]" and df = 0 and target = None and all_results = "[]"
      and business_insights = no_insights and tasks = faulty_phase and order = "[2, 0, 1, 3]"
      and clock = unit_clock and loaded = "Inr toy_df"]
  have d: "distinct (keys faulty_phase)" by (simp add: faulty_phase_def keys_def)
  have o: "\<forall>j<length faulty_phase. j \<in> set [2, 0, 1, 3]"
    by (auto simp: faulty_phase_def less_Suc_eq)
  obtain results where ph: "run_phase faulty_phase [2, 0, 1, 3] = Some (Inr results)"
    using run_phase_complete[OF d o] by blast
  have own: "\<forall>(k, res) \<in> set faulty_phase. \<forall>r. res = Inr r \<longrightarrow> envelope_ok r"
    by (simp add: faulty_phase_def envelope_ok_def truthy_def)
  have o4: "\<forall>j<4. j \<in> set [2, 0, 1, 3::nat]" by (auto simp: less_Suc_eq numeral_eq_Suc)
  have g: "generate_pdf_report plain_ext results ins = Inr ''project/analysis_report.pdf''"
    for results ins
    by (simp add: generate_pdf_report_def plain_ext_def)
  obtain res where run: "run_pipeline (repo_agents plain_ext None unit_clock) (Inr toy_df) None
      [2, 0, 1, 3] = Some (Inr res)"
    using run_pipeline_repo[OF o4, of plain_ext None unit_clock toy_df None] by (auto simp: g)
  from inst ph own run show ?thesis by blast
qed


section \<open>The shared dataframe\<close>

text \<open>
  The loops of the cleaning agent and of the ML agent assign to columns of one frame, the
  one at the address they are given; every other frame of the heap stays as it was, and no
  frame is added.
\<close>

lemma fill_numeric_frame:
  assumes "fill_numeric ext cleaned_df cols h operations = (res, h')"
  shows "length h' = length h \<and> (\<forall>a. a \<noteq> cleaned_df \<longrightarrow> h' ! a = h ! a)"
  using assms
proof (induction cols arbitrary: h operations)
  case Nil
  then show ?case by simp
next
  case (Cons col cols)
  show ?case
  proof (cases "map_of (h ! cleaned_df) col")
    case None
    with Cons.prems show ?thesis by simp
  next
    case (Some c)
    show ?thesis
    proof (cases "null_count c > 0")
      case False
      with Cons.prems Some have "fill_numeric ext cleaned_df cols h operations = (res, h')" by simp
      from Cons.IH[OF this] show ?thesis .
    next
      case True
      show ?thesis
      proof (cases "median ext c")
        case (Inl e)
        with Cons.prems Some True show ?thesis by simp
      next
        case (Inr median_val)
        let ?h = "h[cleaned_df := set_column (h ! cleaned_df) col (fillna c median_val)]"
        from Cons.prems Some True Inr obtain ops' where
          "fill_numeric ext cleaned_df cols ?h ops' = (res, h')" by simp
        from Cons.IH[OF this] show ?thesis by simp
      qed
    qed
  qed
qed

lemma fill_categorical_frame:
  assumes "fill_categorical ext cleaned_df cols h operations = (res, h')"
  shows "length h' = length h \<and> (\<forall>a. a \<noteq> cleaned_df \<longrightarrow> h' ! a = h ! a)"
  using assms
proof (induction cols arbitrary: h operations)
  case Nil
  then show ?case by simp
next
  case (Cons col cols)
  show ?case
  proof (cases "map_of (h ! cleaned_df) col")
    case None
    with Cons.prems show ?thesis by simp
  next
    case (Some c)
    show ?thesis
    proof (cases "null_count c > 0")
      case False
      with Cons.prems Some have "fill_categorical ext cleaned_df cols h operations = (res, h')" by simp
      from Cons.IH[OF this] show ?thesis .
    next
      case True
      show ?thesis
      proof (cases "mode ext c")
        case (Inl e)
        with Cons.prems Some True show ?thesis by simp
      next
        case (Inr modes)
        from Cons.prems Some True Inr obtain h0 ops' where
          r: "fill_categorical ext cleaned_df cols h0 ops' = (res, h')"
          and h0: "\<exists>f. h0 = h[cleaned_df := f]"
          by (auto simp: Let_def)
        from Cons.IH[OF r] h0 show ?thesis by auto
      qed
    qed
  qed
qed

lemma encode_categorical_frame:
  assumes "encode_categorical ext X_pre cols h = (res, h')"
  shows "length h' = length h \<and> (\<forall>a. a \<noteq> X_pre \<longrightarrow> h' ! a = h ! a)"
  using assms
proof (induction cols arbitrary: h)
  case Nil
  then show ?case by simp
next
  case (Cons col cols)
  show ?case
  proof (cases "map_of (h ! X_pre) col")
    case None
    with Cons.prems show ?thesis by simp
  next
    case (Some c)
    show ?thesis
    proof (cases "label_encode ext c")
      case (Inl e)
      with Cons.prems Some show ?thesis by simp
    next
      case (Inr encoded)
      let ?h = "h[X_pre := set_column (h ! X_pre) col encoded]"
      from Cons.prems Some Inr have "encode_categorical ext X_pre cols ?h = (res, h')" by simp
      from Cons.IH[OF this] show ?thesis by simp
    qed
  qed
qed

text \<open>
  \<open>DataCleaningAgent.execute\<close> works on \<open>cleaned_df = df.copy()\<close> and on the frame that
  \<open>drop_duplicates()\<close> returns, \<open>MLAgent.execute\<close> on \<open>X = df.drop(columns=[target])\<close> and on
  \<open>X_pre = X.copy()\<close>: all of them are allocated after the frames the heap held at the call.
\<close>

lemma DataCleaningAgent_body_frame:
  assumes "a < length h"
  shows "snd (DataCleaningAgent_body ext client h df) ! a = h ! a"
proof (cases "duplicated_sum ext (h ! df)")
  case (Inl e)
  then show ?thesis by (simp add: DataCleaningAgent_body_def)
next
  case d0: (Inr summary_duplicates)
  let ?adk = "if client \<noteq> None
            then fst (safe_call_adk (\<lambda>n. Inr (call_adk ext client n)) (random ext) 5 5)
            else Inr None"
  show ?thesis
  proof (cases ?adk)
    case (Inl e)
    with d0 show ?thesis by (simp add: DataCleaningAgent_body_def)
  next
    case adk: (Inr adk_resp)
    let ?c = "length h"
    let ?h1 = "h @ [h ! df]"
    have ne: "a \<noteq> ?c" using assms by simp
    have h1: "?h1 ! a = h ! a" using assms by (simp add: nth_append)
    obtain r2 h2 where
      f2: "fill_numeric ext ?c (columns (select_dtypes np_number (?h1 ! ?c))) ?h1 [] = (r2, h2)"
      by (cases "fill_numeric ext ?c (columns (select_dtypes np_number (?h1 ! ?c))) ?h1 []")
    from fill_numeric_frame[OF f2] ne h1 have h2: "h2 ! a = h ! a" and l2: "length h2 = Suc ?c"
      by auto
    show ?thesis
    proof (cases r2)
      case (Inl e)
      with d0 adk f2 h2 show ?thesis
        by (simp add: DataCleaningAgent_body_def alloc_def Let_def)
    next
      case ops2: (Inr operations2)
      obtain r3 h3 where
        f3: "fill_categorical ext ?c (columns (select_dtypes [Object, Category] (h2 ! ?c))) h2
               operations2 = (r3, h3)"
        by (cases "fill_categorical ext ?c (columns (select_dtypes [Object, Category] (h2 ! ?c))) h2
               operations2")
      from fill_categorical_frame[OF f3] ne h2 l2
      have h3: "h3 ! a = h ! a" and l3: "length h3 = Suc ?c" by auto
      show ?thesis
      proof (cases r3)
        case (Inl e)
        with d0 adk f2 ops2 f3 h3 show ?thesis
          by (simp add: DataCleaningAgent_body_def alloc_def Let_def)
      next
        case ops3: (Inr operations3)
        show ?thesis
        proof (cases "duplicated_sum ext (h3 ! ?c)")
          case (Inl e)
          with d0 adk f2 ops2 f3 ops3 h3 show ?thesis
            by (simp add: DataCleaningAgent_body_def alloc_def Let_def)
        next
          case d3: (Inr duplicates)
          show ?thesis
          proof (cases "duplicates > 0")
            case False
            with d0 adk f2 ops2 f3 ops3 d3 h3 show ?thesis
              by (simp add: DataCleaningAgent_body_def alloc_def Let_def)
          next
            case True
            show ?thesis
            proof (cases "drop_duplicates ext (h3 ! ?c)")
              case (Inl e)
              with d0 adk f2 ops2 f3 ops3 d3 True h3 show ?thesis
                by (simp add: DataCleaningAgent_body_def alloc_def Let_def)
            next
              case (Inr deduplicated)
              have "(h3 @ [deduplicated]) ! a = h ! a"
                using h3 l3 assms by (simp add: nth_append)
              with d0 adk f2 ops2 f3 ops3 d3 True Inr show ?thesis
                by (simp add: DataCleaningAgent_body_def alloc_def Let_def)
            qed
          qed
        qed
      qed
    qed
  qed
qed

lemma MLAgent_body_frame:
  assumes "a < length h"
  shows "snd (MLAgent_body ext client start now h df target) ! a = h ! a"
proof (cases "target = None \<and> snd (shape (select_dtypes np_number (h ! df))) < 2")
  case True
  then show ?thesis by (simp add: MLAgent_body_def Let_def)
next
  case early: False
  define t where "t = (case target of None \<Rightarrow> hd (columns (select_dtypes np_number (h ! df)))
                        | Some t \<Rightarrow> t)"
  show ?thesis
  proof (cases "t \<notin> set (columns (h ! df))")
    case True
    with early show ?thesis by (simp add: MLAgent_body_def Let_def t_def)
  next
    case present: False
    let ?X = "length h"
    let ?h1 = "h @ [drop_column (h ! df) t]"
    have h1: "?h1 ! a = h ! a" using assms by (simp add: nth_append)
    show ?thesis
    proof (cases "map_of (?h1 ! df) t")
      case None
      with early present h1 show ?thesis
        by (simp add: MLAgent_body_def Let_def t_def[symmetric] alloc_def)
    next
      case y: (Some y)
      let ?X_pre = "Suc (length h)"
      let ?h2 = "?h1 @ [?h1 ! ?X]"
      have ne: "a \<noteq> ?X_pre" using assms by simp
      have h2: "?h2 ! a = h ! a" using assms by (simp add: nth_append)
      obtain r3 h3 where
        f3: "encode_categorical ext ?X_pre
               (columns (select_dtypes [Object, Category] (?h2 ! ?X_pre))) ?h2 = (r3, h3)"
        by (cases "encode_categorical ext ?X_pre
               (columns (select_dtypes [Object, Category] (?h2 ! ?X_pre))) ?h2")
      from encode_categorical_frame[OF f3] ne h2 have h3: "h3 ! a = h ! a" by auto
      show ?thesis
      proof (cases r3)
        case (Inl e)
        with early present y f3 h3 show ?thesis
          by (simp add: MLAgent_body_def Let_def t_def[symmetric] alloc_def)
      next
        case enc: (Inr encoded_all)
        show ?thesis
        proof (cases "fit_importances ext (fst y = Int64 \<and> nunique y \<le> 10)
             (map (\<lambda>(name, c). (name, fillna c (Some (Num 0)))) (h3 ! ?X_pre))
             (fillna y (Some (Num 0)))")
          case (Inl e)
          with early present y f3 enc h3 show ?thesis
            by (simp add: MLAgent_body_def Let_def t_def[symmetric] alloc_def)
        next
          case (Inr feature_importances)
          with early present y f3 enc h3 show ?thesis
            by (simp add: MLAgent_body_def Let_def t_def[symmetric] alloc_def)
        qed
      qed
    qed
  qed
qed

lemma DataCleaningAgent_execute_frame:
  "a < length h \<Longrightarrow> snd (DataCleaningAgent_execute ext client start now h df) ! a = h ! a"
  using DataCleaningAgent_body_frame[of a h ext client df]
  by (auto simp: DataCleaningAgent_execute_def split: prod.splits sum.splits)

lemma MLAgent_execute_frame:
  "a < length h \<Longrightarrow> snd (MLAgent_execute ext client start now h df target) ! a = h ! a"
  using MLAgent_body_frame[of a h ext client start now df target]
  by (auto simp: MLAgent_execute_def split: prod.splits sum.splits)

lemma EDAAgent_execute_frame: "snd (EDAAgent_execute ext client start now h df) = h"
  by (simp add: EDAAgent_execute_def split: sum.splits)

lemma AnomalyAgent_execute_frame: "snd (AnomalyAgent_execute ext client start now h df) = h"
  by (simp add: AnomalyAgent_execute_def split: sum.splits)

lemma toy_cleaning_heap:
  "snd (DataCleaningAgent_execute plain_ext None 0 1 [toy_df] 0) =
     [toy_df,
      [(''price'', (Float64, [Some (Num 1), Some (Num 2), Some (Num 3)])),
       (''city'', (Object, [Some (Str ''a''), Some (Str ''a''), Some (Str ''a'')]))]]"
  by (simp add: DataCleaningAgent_execute_def DataCleaningAgent_body_def plain_ext_def toy_df_def
      alloc_def select_dtypes_def np_number_def columns_def null_count_def fillna_def Let_def)

lemma toy_ml_heap:
  "snd (MLAgent_execute plain_ext None 0 1 [toy_df] 0 (Some ''price'')) =
     [toy_df,
      [(''city'', (Object, [Some (Str ''a''), None, Some (Str ''a'')]))],
      [(''city'', (Int64, [Some (Num 0), Some (Num 0), Some (Num 0)]))]]"
  by (simp add: MLAgent_execute_def MLAgent_body_def plain_ext_def toy_df_def
      alloc_def select_dtypes_def np_number_def columns_def drop_column_def shape_def Let_def)

text \<open>
  Claim C9. The shared input dataframe is read-only for every task: whatever the dataframe,
  the libraries' answers, the client and the target are, and whether the task succeeds or
  fails, after \<open>execute\<close> of the cleaning, EDA, anomaly or ML agent has returned, the frame
  at the address \<open>df\<close> that was passed in is the frame it was at the call. The cleaning
  agent's fills and de-duplication and the ML agent's encoding change frames that the task
  allocated itself: every frame the heap held at the call is unchanged. The tasks of the
  later phases, \<open>BusinessInsightsAgent.execute(all_results)\<close> and
  \<open>ReportAgent.execute(all_results, business_insights)\<close>, are not passed the dataframe and
  work on the results only, so they have no heap to change.
\<close>

theorem shared_dataframe_unchanged:
  assumes "df < length h"
  shows "snd (DataCleaningAgent_execute ext client start now h df) ! df = h ! df
       \<and> snd (EDAAgent_execute ext client start now h df) ! df = h ! df
       \<and> snd (AnomalyAgent_execute ext client start now h df) ! df = h ! df
       \<and> snd (MLAgent_execute ext client start now h df target) ! df = h ! df
       \<and> (\<forall>a<length h.
             snd (DataCleaningAgent_execute ext client start now h df) ! a = h ! a
           \<and> snd (MLAgent_execute ext client start now h df target) ! a = h ! a)"
  using assms
  by (simp add: DataCleaningAgent_execute_frame MLAgent_execute_frame EDAAgent_execute_frame
      AnomalyAgent_execute_frame)

text \<open>
  On the three-row frame \<open>toy_df\<close>, whose \<open>price\<close> and \<open>city\<close> columns each have one
  missing cell: the cleaning agent fills both cells in its copy at address 1, the ML agent
  encodes \<open>city\<close> in its copy at address 2, and the frame at address 0 is still \<open>toy_df\<close>
  after each of the four tasks.
\<close>

theorem shared_dataframe_unchanged_witness:
  "(0::nat) < length [toy_df]
   \<and> snd (DataCleaningAgent_execute plain_ext None 0 1 [toy_df] 0) ! 0 = toy_df
   \<and> snd (DataCleaningAgent_execute plain_ext None 0 1 [toy_df] 0) ! 1 =
       [(''price'', (Float64, [Some (Num 1), Some (Num 2), Some (Num 3)])),
        (''city'', (Object, [Some (Str ''a''), Some (Str ''a''), Some (Str ''a'')]))]
   \<and> snd (EDAAgent_execute plain_ext None 0 1 [toy_df] 0) ! 0 = toy_df
   \<and> snd (AnomalyAgent_execute plain_ext None 0 1 [toy_df] 0) ! 0 = toy_df
   \<and> snd (MLAgent_execute plain_ext None 0 1 [toy_df] 0 (Some ''price'')) ! 0 = toy_df
   \<and> snd (MLAgent_execute plain_ext None 0 1 [toy_df] 0 (Some ''price'')) ! 2 =
       [(''city'', (Int64, [Some (Num 0), Some (Num 0), Some (Num 0)]))]"
  using shared_dataframe_unchanged[of 0 "[toy_df]" plain_ext None 0 1 "Some ''price''"]
    toy_cleaning_heap toy_ml_heap
  by simp

end
